theory Spec2Isabelle
  imports Complex_Main "HOL-Library.AList" "HOL-Library.Monad_Syntax"
begin

section \<open>FinAA: data model (types.ts)\<close>

text \<open>
  A JavaScript number is modelled as a real number or \<open>NaN\<close>. Finite doubles are
  idealised as reals (no rounding); \<open>NaN\<close> is kept because \<open>parseFloat\<close> produces it
  and because the truthiness tests of the code (\<open>x || 0\<close>, \<open>if (rate)\<close>) depend on it.
  The infinities are outside the model.
\<close>

datatype jsnum = Num real | NaN

fun truthy_num :: "jsnum \<Rightarrow> bool" where
  "truthy_num (Num r) = (r \<noteq> 0)"
| "truthy_num NaN = False"

text \<open>\<open>a || b\<close> on numbers.\<close>

definition num_or :: "jsnum \<Rightarrow> jsnum \<Rightarrow> jsnum" where
  "num_or a b = (if truthy_num a then a else b)"

fun js_add :: "jsnum \<Rightarrow> jsnum \<Rightarrow> jsnum" where
  "js_add (Num a) (Num b) = Num (a + b)"
| "js_add _ _ = NaN"

fun js_sub :: "jsnum \<Rightarrow> jsnum \<Rightarrow> jsnum" where
  "js_sub (Num a) (Num b) = Num (a - b)"
| "js_sub _ _ = NaN"

fun js_mul :: "jsnum \<Rightarrow> jsnum \<Rightarrow> jsnum" where
  "js_mul (Num a) (Num b) = Num (a * b)"
| "js_mul _ _ = NaN"

text \<open>
  Division. A zero divisor gives a non-finite result in JavaScript, which the model
  renders as \<open>NaN\<close>; the conversion code below never divides by a falsy rate.
\<close>

fun js_div :: "jsnum \<Rightarrow> jsnum \<Rightarrow> jsnum" where
  "js_div (Num a) (Num b) = (if b = 0 then NaN else Num (a / b))"
| "js_div _ _ = NaN"

fun js_gt :: "jsnum \<Rightarrow> jsnum \<Rightarrow> bool" where
  "js_gt (Num a) (Num b) = (a > b)"
| "js_gt _ _ = False"

fun js_ge :: "jsnum \<Rightarrow> jsnum \<Rightarrow> bool" where
  "js_ge (Num a) (Num b) = (a \<ge> b)"
| "js_ge _ _ = False"

text \<open>\<open>Math.round\<close>: the nearest integer, halves rounded up.\<close>

fun Math_round :: "jsnum \<Rightarrow> jsnum" where
  "Math_round (Num a) = Num (of_int \<lfloor>a + 1 / 2\<rfloor>)"
| "Math_round NaN = NaN"

fun Math_abs :: "jsnum \<Rightarrow> jsnum" where
  "Math_abs (Num a) = Num \<bar>a\<bar>"
| "Math_abs NaN = NaN"

datatype EntryType = ASSET | LIABILITY | EXPENSE | BILL | INSURANCE | BENEFIT

datatype liquidity_tier = High | Medium | Low

record GroundingSource =
  title :: string
  uri :: string

text \<open>
  An optional property (\<open>field?: T\<close>) is an \<open>option\<close>: \<open>None\<close> stands for a property
  that is missing or \<open>undefined\<close>.
\<close>

record FinanceEntry =
  entry_id :: string
  entry_type :: EntryType
  category :: string
  name :: string
  amount :: jsnum
  currency :: "string option"
  initialAmount :: "jsnum option"
  date :: string
  address :: "string option"
  plotSize :: "string option"
  propertyType :: "string option"
  valuationSources :: "GroundingSource list option"
  lastValuated :: "string option"
  referenceNumber :: "string option"
  linkedAssetId :: "string option"
  statementDriveId :: "string option"
  isRecurring :: "bool option"
  isWorkProvided :: "bool option"
  liquidity :: "liquidity_tier option"
  entry_notes :: "string option"
  coverageAmount :: "jsnum option"
  expiryDate :: "string option"
  emi :: "jsnum option"
  monthsRemaining :: "jsnum option"

datatype goal_category = Travel | House | Education | Wedding | Retirement | Emergency | Other

record Goal =
  goal_id :: string
  goal_name :: string
  targetAmount :: jsnum
  currentAmount :: jsnum
  goal_currency :: "string option"
  deadline :: "string option"
  goal_category :: goal_category
  goal_linkedAssetId :: "string option"

record LegacyProfile =
  successorName :: string
  recoveryPasskey :: string
  isConfigured :: bool
  lastUpdated :: string

record Settings =
  settings_currency :: string
  userName :: string
  biometricEnabled :: bool
  termsAccepted :: bool
  spreadsheetId :: "string option"
  monthlyBudgetLimit :: "jsnum option"

text \<open>
  \<open>Record<string, number>\<close> is an association list in insertion order, read with
  \<open>map_of\<close> and written with \<open>AList.update\<close> (own properties only).
\<close>

type_synonym rate_table = "(string \<times> jsnum) list"

record UserData =
  entries :: "FinanceEntry list"
  goals :: "Goal list"
  lastSynced :: string
  exchangeRates :: "rate_table option"
  legacy :: "LegacyProfile option"
  settings :: Settings

section \<open>Currency normalization and derived metrics (Dashboard, MatrixView)\<close>

text \<open>
  The rate table is a plain object, and \<open>rates[code]\<close> is a property read: it finds an
  own property (a rate), and failing that a member inherited from \<open>Object.prototype\<close>,
  and only failing both is it \<open>undefined\<close>. The association list holds the own
  properties; the inherited members are the functions of \<open>Object.prototype\<close> and its
  accessor \<open>__proto__\<close> (whose value is the prototype object).
\<close>

definition Object_prototype_members :: "string list" where
  "Object_prototype_members =
     [''constructor'', ''toString'', ''toLocaleString'', ''valueOf'', ''hasOwnProperty'',
      ''isPrototypeOf'', ''propertyIsEnumerable'', ''__proto__'', ''__defineGetter__'',
      ''__defineSetter__'', ''__lookupGetter__'', ''__lookupSetter__'']"

datatype rate_lookup = OwnRate jsnum | InheritedMember | Undefined

definition rate_lookup :: "rate_table \<Rightarrow> string \<Rightarrow> rate_lookup" where
  "rate_lookup rates code =
     (case map_of rates code of
        Some r \<Rightarrow> OwnRate r
      | None \<Rightarrow> if code \<in> set Object_prototype_members then InheritedMember else Undefined)"

text \<open>
  \<open>Dashboard.getConvertedAmount\<close>. \<open>!fromCurrency\<close> holds for a missing code and for
  the empty string; \<open>data.exchangeRates || {}\<close> is the empty object when no table is
  cached; \<open>if (rateToBase)\<close> fails for \<open>undefined\<close>, for zero and for \<open>NaN\<close>, and
  succeeds for a function or an object, by which the division gives \<open>NaN\<close>.
\<close>

definition getConvertedAmount :: "UserData \<Rightarrow> jsnum \<Rightarrow> string option \<Rightarrow> jsnum" where
  "getConvertedAmount data amt fromCurrency =
     (case fromCurrency of
        None \<Rightarrow> amt
      | Some c \<Rightarrow>
          if c = [] \<or> c = settings_currency (settings data) then amt
          else
            (let rates = (case exchangeRates data of None \<Rightarrow> [] | Some r \<Rightarrow> r)
             in case rate_lookup rates c of
                  Undefined \<Rightarrow> amt
                | InheritedMember \<Rightarrow> NaN
                | OwnRate rateToBase \<Rightarrow>
                    if truthy_num rateToBase then js_div amt rateToBase else amt))"

text \<open>
  \<open>MatrixItem.getConverted\<close>, closed over the item, the base currency and the rates.
  \<open>rates?.[code]\<close> is \<open>undefined\<close> when no table is cached, and a property read of
  the table otherwise.
\<close>

definition getConverted :: "FinanceEntry \<Rightarrow> string \<Rightarrow> rate_table option \<Rightarrow> jsnum \<Rightarrow> jsnum" where
  "getConverted item baseCurrency rates amt =
     (case currency item of
        None \<Rightarrow> amt
      | Some c \<Rightarrow>
          if c = [] \<or> c = baseCurrency then amt
          else
            (case (case rates of None \<Rightarrow> Undefined | Some r \<Rightarrow> rate_lookup r c) of
               Undefined \<Rightarrow> amt
             | InheritedMember \<Rightarrow> NaN
             | OwnRate rateToBase \<Rightarrow>
                 if truthy_num rateToBase then js_div amt rateToBase else amt))"

text \<open>
  \<open>Dashboard.stats\<close>: one pass over the entries with five accumulators.
  \<open>currentMonth\<close> is \<open>new Date().toISOString().slice(0, 7)\<close>, a parameter here.
  \<open>emergencyFundMonths\<close> is a formatted string (\<open>toFixed(1)\<close>) and is left out.
\<close>

record stats_acc =
  assets :: jsnum
  debt :: jsnum
  burn :: jsnum
  monthlyInflow :: jsnum
  savings :: jsnum

definition stats_step :: "UserData \<Rightarrow> string \<Rightarrow> stats_acc \<Rightarrow> FinanceEntry \<Rightarrow> stats_acc" where
  "stats_step data currentMonth acc e =
     (let amt = getConvertedAmount data (num_or (amount e) (Num 0)) (currency e);
          entryMonth = take 7 (date e)
      in if entry_type e = ASSET then
           (let acc1 = acc\<lparr>assets := js_add (assets acc) amt\<rparr>
            in if entryMonth = currentMonth then
                 (let acc2 = (if category e = ''Income''
                              then acc1\<lparr>monthlyInflow := js_add (monthlyInflow acc1) amt\<rparr>
                              else acc1)
                  in if category e = ''Savings'' \<or> category e = ''Investments''
                     then acc2\<lparr>savings := js_add (savings acc2) amt\<rparr>
                     else acc2)
               else acc1)
         else if entry_type e = LIABILITY then acc\<lparr>debt := js_add (debt acc) amt\<rparr>
         else if (entry_type e = EXPENSE \<or> entry_type e = BILL) \<and> entryMonth = currentMonth
           then acc\<lparr>burn := js_add (burn acc) amt\<rparr>
         else acc)"

definition stats_loop :: "UserData \<Rightarrow> string \<Rightarrow> stats_acc" where
  "stats_loop data currentMonth =
     foldl (stats_step data currentMonth)
       \<lparr>assets = Num 0, debt = Num 0, burn = Num 0, monthlyInflow = Num 0, savings = Num 0\<rparr>
       (entries data)"

record stats =
  st_assets :: jsnum
  st_debt :: jsnum
  netWorth :: jsnum
  st_burn :: jsnum
  st_monthlyInflow :: jsnum
  netFlow :: jsnum
  savingsRate :: jsnum
  debtBurden :: jsnum

definition stats :: "UserData \<Rightarrow> string \<Rightarrow> stats" where
  "stats data currentMonth =
     (let acc = stats_loop data currentMonth
      in \<lparr>st_assets = assets acc,
          st_debt = debt acc,
          netWorth = js_sub (assets acc) (debt acc),
          st_burn = burn acc,
          st_monthlyInflow = monthlyInflow acc,
          netFlow = js_sub (monthlyInflow acc) (burn acc),
          savingsRate =
            (if js_gt (monthlyInflow acc) (Num 0)
             then Math_round (js_mul (js_div (savings acc) (monthlyInflow acc)) (Num 100))
             else Num 0),
          debtBurden =
            (if js_gt (monthlyInflow acc) (Num 0)
             then Math_round (js_mul (js_div (debt acc) (js_mul (monthlyInflow acc) (Num 12))) (Num 100))
             else Num 0)\<rparr>)"

subsection \<open>The net-worth formula in the words of the specification\<close>

text \<open>
  Base conversion of an amount with currency \<open>c\<close>: the amount divided by \<open>rate[c]\<close>, and
  the raw amount when \<open>c\<close> is absent or equal to the base currency.
\<close>

definition spec_base_converted :: "string \<Rightarrow> rate_table \<Rightarrow> FinanceEntry \<Rightarrow> jsnum" where
  "spec_base_converted base rates e =
     (case currency e of
        None \<Rightarrow> amount e
      | Some c \<Rightarrow>
          if c = base then amount e
          else (case map_of rates c of None \<Rightarrow> NaN | Some r \<Rightarrow> js_div (amount e) r))"

definition js_sum :: "jsnum list \<Rightarrow> jsnum" where
  "js_sum xs = foldl js_add (Num 0) xs"

definition spec_net_worth :: "string \<Rightarrow> rate_table \<Rightarrow> FinanceEntry list \<Rightarrow> jsnum" where
  "spec_net_worth base rates es =
     js_sub (js_sum (map (spec_base_converted base rates) (filter (\<lambda>e. entry_type e = ASSET) es)))
            (js_sum (map (spec_base_converted base rates) (filter (\<lambda>e. entry_type e = LIABILITY) es)))"

text \<open>
  A rate table is complete for an entry list when every currency code in use, other than
  the base currency, has a usable (non-zero) rate; a code that is present is a proper,
  non-empty code.
\<close>

definition rates_complete :: "string \<Rightarrow> rate_table \<Rightarrow> FinanceEntry list \<Rightarrow> bool" where
  "rates_complete base rates es =
     list_all (\<lambda>e. case currency e of
                     None \<Rightarrow> True
                   | Some c \<Rightarrow> c \<noteq> [] \<and>
                       (c = base \<or> (case map_of rates c of None \<Rightarrow> False | Some r \<Rightarrow> truthy_num r))) es"

text \<open>The data-model invariant that an amount is a number.\<close>

definition amounts_numeric :: "FinanceEntry list \<Rightarrow> bool" where
  "amounts_numeric es = list_all (\<lambda>e. amount e \<noteq> NaN) es"

section \<open>Application state controller: mutations (App.tsx)\<close>

text \<open>
  The canonical state is \<open>user : UserData | null\<close>; every handler starts with
  \<open>if (!user) return\<close>. \<open>now\<close> stands for \<open>new Date().toISOString()\<close>. Each function
  is the synchronous part of its handler, the snapshot handed to \<open>setUser\<close>; the
  persistence it then requests is modelled with the storage backend below.
\<close>

definition addEntry :: "string \<Rightarrow> FinanceEntry \<Rightarrow> UserData option \<Rightarrow> UserData option" where
  "addEntry now entry user =
     (case user of
        None \<Rightarrow> None
      | Some u \<Rightarrow> Some (u\<lparr>entries := entry # entries u, lastSynced := now\<rparr>))"

definition updateEntry :: "string \<Rightarrow> FinanceEntry \<Rightarrow> UserData option \<Rightarrow> UserData option" where
  "updateEntry now updatedEntry user =
     (case user of
        None \<Rightarrow> None
      | Some u \<Rightarrow>
          Some (u\<lparr>entries := map (\<lambda>e. if entry_id e = entry_id updatedEntry then updatedEntry else e)
                                  (entries u),
                  lastSynced := now\<rparr>))"

definition addEntries :: "string \<Rightarrow> FinanceEntry list \<Rightarrow> UserData option \<Rightarrow> UserData option" where
  "addEntries now newEntries user =
     (case user of
        None \<Rightarrow> None
      | Some u \<Rightarrow> Some (u\<lparr>entries := newEntries @ entries u, lastSynced := now\<rparr>))"

definition updateLegacy :: "string \<Rightarrow> LegacyProfile \<Rightarrow> UserData option \<Rightarrow> UserData option" where
  "updateLegacy now l user =
     (case user of
        None \<Rightarrow> None
      | Some u \<Rightarrow> Some (u\<lparr>legacy := Some l, lastSynced := now\<rparr>))"

text \<open>\<open>acceptTerms\<close> reads no clock: its snapshot has no \<open>lastSynced\<close> property of its own.\<close>

definition acceptTerms :: "string \<Rightarrow> UserData option \<Rightarrow> UserData option" where
  "acceptTerms now user =
     (case user of
        None \<Rightarrow> None
      | Some u \<Rightarrow> Some (u\<lparr>settings := (settings u)\<lparr>termsAccepted := True\<rparr>\<rparr>))"

section \<open>Recovery passkey and vault lock (SafetyNet, SecurityVault)\<close>

subsection \<open>String primitives\<close>

text \<open>
  The passkey comparison calls three string primitives of the platform: \<open>trim\<close>,
  \<open>toUpperCase\<close> and the character class \<open>\s\<close> of regular expressions. What they do
  to a character is laid down by the Unicode tables of the platform, not by this
  program; the comparison takes them as a parameter. (A string is a list of 8-bit
  characters, which stand for the code units up to U+00FF.)
\<close>

record js_strings =
  str_trim :: "string \<Rightarrow> string"
  str_toUpperCase :: "string \<Rightarrow> string"
  str_is_space :: "char \<Rightarrow> bool"

text \<open>
  The primitives on ASCII text: \<open>\s\<close> is space, tab, line feed, vertical tab, form
  feed and carriage return, and \<open>toUpperCase\<close> maps the letters a to z.
\<close>

definition is_space :: "char \<Rightarrow> bool" where
  "is_space c = (c \<in> set [CHR '' '', CHR 0x09, CHR 0x0A, CHR 0x0B, CHR 0x0C, CHR 0x0D])"

definition trim :: "string \<Rightarrow> string" where
  "trim s = rev (dropWhile is_space (rev (dropWhile is_space s)))"

definition toUpperCase_char :: "char \<Rightarrow> char" where
  "toUpperCase_char c =
     (case map_of (zip ''abcdefghijklmnopqrstuvwxyz'' ''ABCDEFGHIJKLMNOPQRSTUVWXYZ'') c of
        None \<Rightarrow> c
      | Some u \<Rightarrow> u)"

definition toUpperCase :: "string \<Rightarrow> string" where
  "toUpperCase s = map toUpperCase_char s"

definition ascii_strings :: js_strings where
  "ascii_strings = \<lparr>str_trim = trim, str_toUpperCase = toUpperCase, str_is_space = is_space\<rparr>"

text \<open>\<open>s.charAt(i)\<close>: the empty string out of range.\<close>

definition charAt :: "string \<Rightarrow> nat \<Rightarrow> string" where
  "charAt s i = (if i < length s then [s ! i] else [])"

subsection \<open>SafetyNet.handleGeneratePasskey\<close>

definition charset :: string where
  "charset = ''ABCDEFGHJKLMNPQRSTUVWXYZ23456789''"

text \<open>
  The loop \<open>for (let i = 0; i < 16; i++)\<close>; \<open>rnd i\<close> is the value of the call of
  \<open>Math.random()\<close> in round \<open>i\<close>.
\<close>

function passkey_loop :: "(nat \<Rightarrow> real) \<Rightarrow> nat \<Rightarrow> string \<Rightarrow> string" where
  "passkey_loop rnd i passkey =
     (if i < 16 then
        (let p1 = (if i > 0 \<and> i mod 4 = 0 then passkey @ ''-'' else passkey);
             p2 = p1 @ charAt charset (nat \<lfloor>rnd i * real (length charset)\<rfloor>)
         in passkey_loop rnd (Suc i) p2)
      else passkey)"
  by pat_completeness auto
termination
  by (relation "measure (\<lambda>(rnd, i, passkey). 16 - i)") auto

declare passkey_loop.simps [simp del]

definition handleGeneratePasskey :: "(nat \<Rightarrow> real) \<Rightarrow> string \<Rightarrow> string \<Rightarrow> LegacyProfile" where
  "handleGeneratePasskey rnd successor now =
     \<lparr>successorName = (if successor = [] then ''Designated Successor'' else successor),
      recoveryPasskey = passkey_loop rnd 0 [],
      isConfigured = True,
      lastUpdated = now\<rparr>"

text \<open>
  For the statement of what the loop produces: the character picked in round \<open>i\<close>, and
  the text that \<open>n\<close> rounds starting with round \<open>i\<close> append.
\<close>

definition pick :: "(nat \<Rightarrow> real) \<Rightarrow> nat \<Rightarrow> char" where
  "pick rnd i = charset ! nat \<lfloor>rnd i * real (length charset)\<rfloor>"

fun render :: "(nat \<Rightarrow> real) \<Rightarrow> nat \<Rightarrow> nat \<Rightarrow> string" where
  "render rnd i 0 = []"
| "render rnd i (Suc n) =
     (if 0 < i \<and> i mod 4 = 0 then ''-'' else []) @ [pick rnd i] @ render rnd (i + 1) n"

subsection \<open>SecurityVault\<close>

text \<open>
  \<open>isVaultLocked\<close> is the flag of \<open>App\<close>, \<open>isLocked\<close> the component's own copy,
  initialised from the \<open>enabled\<close> property when the component is mounted. The
  component is mounted with the first rendering of the authenticated layout, which
  comes after \<open>handleLogin\<close> has made its state updates; \<open>enabled\<close> is then the flag
  that \<open>handleLogin\<close> leaves. \<open>onUnlock\<close> is \<open>() => setIsVaultLocked(false)\<close>.
\<close>

record vault_state =
  isVaultLocked :: bool
  isLocked :: bool
  vault_error :: "string option"
  showPasskeyField :: bool
  passkeyInput :: string

definition SecurityVault_mount :: "bool \<Rightarrow> vault_state" where
  "SecurityVault_mount enabled =
     \<lparr>isVaultLocked = enabled, isLocked = enabled, vault_error = None,
      showPasskeyField = False, passkeyInput = []\<rparr>"

text \<open>\<open>handleUnlock\<close> (``Biometric Fallback: Simulation''): no credential is read.\<close>

definition handleUnlock :: "vault_state \<Rightarrow> vault_state" where
  "handleUnlock s = s\<lparr>isLocked := False, isVaultLocked := False\<rparr>"

text \<open>
  \<open>passkeyInput.trim().toUpperCase().replace(/\s/g, '')\<close> and
  \<open>legacy.recoveryPasskey.trim().toUpperCase().replace(/[-\s]/g, '')\<close>.
\<close>

definition normalizedInput :: "js_strings \<Rightarrow> string \<Rightarrow> string" where
  "normalizedInput P inp =
     filter (\<lambda>c. \<not> str_is_space P c) (str_toUpperCase P (str_trim P inp))"

definition normalizedPasskey :: "js_strings \<Rightarrow> string \<Rightarrow> string" where
  "normalizedPasskey P pk =
     filter (\<lambda>c. \<not> (c = CHR ''-'' \<or> str_is_space P c)) (str_toUpperCase P (str_trim P pk))"

text \<open>The comparison of \<open>handlePasskeyUnlock\<close>; an empty stored passkey counts as none.\<close>

definition passkey_check :: "js_strings \<Rightarrow> LegacyProfile option \<Rightarrow> string \<Rightarrow> bool" where
  "passkey_check P leg inp =
     (case leg of
        None \<Rightarrow> False
      | Some l \<Rightarrow> recoveryPasskey l \<noteq> []
                  \<and> normalizedInput P inp = normalizedPasskey P (recoveryPasskey l))"

definition handlePasskeyUnlock :: "js_strings \<Rightarrow> LegacyProfile option \<Rightarrow> vault_state \<Rightarrow> vault_state" where
  "handlePasskeyUnlock P leg s =
     (case leg of
        None \<Rightarrow> s\<lparr>vault_error := Some ''No recovery passkey configured for this vault.''\<rparr>
      | Some l \<Rightarrow>
          if recoveryPasskey l = []
          then s\<lparr>vault_error := Some ''No recovery passkey configured for this vault.''\<rparr>
          else if normalizedInput P (passkeyInput s) = normalizedPasskey P (recoveryPasskey l)
          then s\<lparr>isLocked := False, isVaultLocked := False\<rparr>
          else s\<lparr>vault_error := Some ''Invalid passkey. Please check the emergency instructions.''\<rparr>)"

text \<open>The actions the lock screen offers.\<close>

datatype vault_event =
    VerifyIdentity
  | UnlockVault
  | TypePasskey string
  | ShowPasskeyField bool

fun vault_step :: "js_strings \<Rightarrow> LegacyProfile option \<Rightarrow> vault_state \<Rightarrow> vault_event \<Rightarrow> vault_state" where
  "vault_step P leg s VerifyIdentity = handleUnlock s"
| "vault_step P leg s UnlockVault = handlePasskeyUnlock P leg s"
| "vault_step P leg s (TypePasskey v) = s\<lparr>passkeyInput := v\<rparr>"
| "vault_step P leg s (ShowPasskeyField b) = s\<lparr>showPasskeyField := b\<rparr>"

section \<open>The persisted document (JSON.stringify, JSON.parse)\<close>

text \<open>
  A JSON document is a tree. \<open>JSON.stringify\<close> omits a property whose value is
  \<open>undefined\<close> and writes \<open>NaN\<close> as \<open>null\<close>; the order of the keys does not matter to
  a reader.
\<close>

datatype json = JNull | JBool bool | JNum real | JStr string | JArr "json list" | JObj "(string \<times> json) list"

definition json_of_num :: "jsnum \<Rightarrow> json" where
  "json_of_num n = (case n of Num r \<Rightarrow> JNum r | NaN \<Rightarrow> JNull)"

definition own_props :: "(string \<times> json option) list \<Rightarrow> (string \<times> json) list" where
  "own_props ps = List.map_filter (\<lambda>(k, v). map_option (Pair k) v) ps"

definition EntryType_name :: "EntryType \<Rightarrow> string" where
  "EntryType_name t =
     (case t of ASSET \<Rightarrow> ''ASSET'' | LIABILITY \<Rightarrow> ''LIABILITY'' | EXPENSE \<Rightarrow> ''EXPENSE''
      | BILL \<Rightarrow> ''BILL'' | INSURANCE \<Rightarrow> ''INSURANCE'' | BENEFIT \<Rightarrow> ''BENEFIT'')"

definition liquidity_name :: "liquidity_tier \<Rightarrow> string" where
  "liquidity_name l = (case l of High \<Rightarrow> ''high'' | Medium \<Rightarrow> ''medium'' | Low \<Rightarrow> ''low'')"

definition json_of_source :: "GroundingSource \<Rightarrow> json" where
  "json_of_source s = JObj [(''title'', JStr (title s)), (''uri'', JStr (uri s))]"

definition json_of_entry :: "FinanceEntry \<Rightarrow> json" where
  "json_of_entry e = JObj (own_props
     [(''id'', Some (JStr (entry_id e))),
      (''type'', Some (JStr (EntryType_name (entry_type e)))),
      (''category'', Some (JStr (category e))),
      (''name'', Some (JStr (name e))),
      (''amount'', Some (json_of_num (amount e))),
      (''currency'', map_option JStr (currency e)),
      (''initialAmount'', map_option json_of_num (initialAmount e)),
      (''date'', Some (JStr (date e))),
      (''address'', map_option JStr (address e)),
      (''plotSize'', map_option JStr (plotSize e)),
      (''propertyType'', map_option JStr (propertyType e)),
      (''valuationSources'', map_option (\<lambda>ss. JArr (map json_of_source ss)) (valuationSources e)),
      (''lastValuated'', map_option JStr (lastValuated e)),
      (''referenceNumber'', map_option JStr (referenceNumber e)),
      (''linkedAssetId'', map_option JStr (linkedAssetId e)),
      (''statementDriveId'', map_option JStr (statementDriveId e)),
      (''isRecurring'', map_option JBool (isRecurring e)),
      (''isWorkProvided'', map_option JBool (isWorkProvided e)),
      (''liquidity'', map_option (\<lambda>l. JStr (liquidity_name l)) (liquidity e)),
      (''notes'', map_option JStr (entry_notes e)),
      (''coverageAmount'', map_option json_of_num (coverageAmount e)),
      (''expiryDate'', map_option JStr (expiryDate e)),
      (''emi'', map_option json_of_num (emi e)),
      (''monthsRemaining'', map_option json_of_num (monthsRemaining e))])"

definition get_prop :: "json \<Rightarrow> string \<Rightarrow> json option" where
  "get_prop j k = (case j of JObj ps \<Rightarrow> map_of ps k | _ \<Rightarrow> None)"

definition as_str :: "json option \<Rightarrow> string option" where
  "as_str v = (case v of Some (JStr s) \<Rightarrow> Some s | _ \<Rightarrow> None)"

definition as_num :: "json option \<Rightarrow> jsnum option" where
  "as_num v = (case v of Some (JNum r) \<Rightarrow> Some (Num r) | _ \<Rightarrow> None)"

definition as_bool :: "json option \<Rightarrow> bool option" where
  "as_bool v = (case v of Some (JBool b) \<Rightarrow> Some b | _ \<Rightarrow> None)"

definition as_opt :: "(json option \<Rightarrow> 'a option) \<Rightarrow> json option \<Rightarrow> 'a option option" where
  "as_opt f v = (case v of None \<Rightarrow> Some None | Some _ \<Rightarrow> map_option Some (f v))"

fun those_list :: "'a option list \<Rightarrow> 'a list option" where
  "those_list [] = Some []"
| "those_list (x # xs) = (case x of None \<Rightarrow> None | Some y \<Rightarrow> map_option ((#) y) (those_list xs))"

definition as_list :: "(json \<Rightarrow> 'a option) \<Rightarrow> json option \<Rightarrow> 'a list option" where
  "as_list f v = (case v of Some (JArr xs) \<Rightarrow> those_list (map f xs) | _ \<Rightarrow> None)"

definition as_EntryType :: "json option \<Rightarrow> EntryType option" where
  "as_EntryType v =
     (case v of
        Some (JStr s) \<Rightarrow> map_of (map (\<lambda>t. (EntryType_name t, t)) [ASSET, LIABILITY, EXPENSE, BILL, INSURANCE, BENEFIT]) s
      | _ \<Rightarrow> None)"

definition as_liquidity :: "json option \<Rightarrow> liquidity_tier option" where
  "as_liquidity v =
     (case v of
        Some (JStr s) \<Rightarrow> map_of (map (\<lambda>t. (liquidity_name t, t)) [High, Medium, Low]) s
      | _ \<Rightarrow> None)"

definition source_of_json :: "json \<Rightarrow> GroundingSource option" where
  "source_of_json j =
     do { t \<leftarrow> as_str (get_prop j ''title''); u \<leftarrow> as_str (get_prop j ''uri'');
          Some \<lparr>title = t, uri = u\<rparr> }"

definition entry_of_json :: "json \<Rightarrow> FinanceEntry option" where
  "entry_of_json j =
     do { i \<leftarrow> as_str (get_prop j ''id'');
          t \<leftarrow> as_EntryType (get_prop j ''type'');
          cat \<leftarrow> as_str (get_prop j ''category'');
          n \<leftarrow> as_str (get_prop j ''name'');
          a \<leftarrow> as_num (get_prop j ''amount'');
          cur \<leftarrow> as_opt as_str (get_prop j ''currency'');
          ini \<leftarrow> as_opt as_num (get_prop j ''initialAmount'');
          d \<leftarrow> as_str (get_prop j ''date'');
          adr \<leftarrow> as_opt as_str (get_prop j ''address'');
          plot \<leftarrow> as_opt as_str (get_prop j ''plotSize'');
          pty \<leftarrow> as_opt as_str (get_prop j ''propertyType'');
          vs \<leftarrow> as_opt (as_list source_of_json) (get_prop j ''valuationSources'');
          lv \<leftarrow> as_opt as_str (get_prop j ''lastValuated'');
          rf \<leftarrow> as_opt as_str (get_prop j ''referenceNumber'');
          la \<leftarrow> as_opt as_str (get_prop j ''linkedAssetId'');
          sd \<leftarrow> as_opt as_str (get_prop j ''statementDriveId'');
          rec \<leftarrow> as_opt as_bool (get_prop j ''isRecurring'');
          wp \<leftarrow> as_opt as_bool (get_prop j ''isWorkProvided'');
          liq \<leftarrow> as_opt as_liquidity (get_prop j ''liquidity'');
          nt \<leftarrow> as_opt as_str (get_prop j ''notes'');
          cov \<leftarrow> as_opt as_num (get_prop j ''coverageAmount'');
          ex \<leftarrow> as_opt as_str (get_prop j ''expiryDate'');
          em \<leftarrow> as_opt as_num (get_prop j ''emi'');
          mr \<leftarrow> as_opt as_num (get_prop j ''monthsRemaining'');
          Some \<lparr>entry_id = i, entry_type = t, category = cat, name = n, amount = a, currency = cur,
                initialAmount = ini, date = d, address = adr, plotSize = plot, propertyType = pty,
                valuationSources = vs, lastValuated = lv, referenceNumber = rf, linkedAssetId = la,
                statementDriveId = sd, isRecurring = rec, isWorkProvided = wp, liquidity = liq,
                entry_notes = nt, coverageAmount = cov, expiryDate = ex, emi = em,
                monthsRemaining = mr\<rparr> }"

definition numeric :: "jsnum \<Rightarrow> bool" where
  "numeric n = (n \<noteq> NaN)"

definition numeric_opt :: "jsnum option \<Rightarrow> bool" where
  "numeric_opt n = (n \<noteq> Some NaN)"

definition entry_numeric :: "FinanceEntry \<Rightarrow> bool" where
  "entry_numeric e = (numeric (amount e) \<and> numeric_opt (initialAmount e) \<and> numeric_opt (coverageAmount e)
      \<and> numeric_opt (emi e) \<and> numeric_opt (monthsRemaining e))"

definition goal_category_name :: "goal_category \<Rightarrow> string" where
  "goal_category_name c =
     (case c of Travel \<Rightarrow> ''Travel'' | House \<Rightarrow> ''House'' | Education \<Rightarrow> ''Education''
      | Wedding \<Rightarrow> ''Wedding'' | Retirement \<Rightarrow> ''Retirement'' | Emergency \<Rightarrow> ''Emergency''
      | Other \<Rightarrow> ''Other'')"

definition as_goal_category :: "json option \<Rightarrow> goal_category option" where
  "as_goal_category v =
     (case v of
        Some (JStr s) \<Rightarrow>
          map_of (map (\<lambda>t. (goal_category_name t, t))
                      [Travel, House, Education, Wedding, Retirement, Emergency, Other]) s
      | _ \<Rightarrow> None)"

definition json_of_goal :: "Goal \<Rightarrow> json" where
  "json_of_goal g = JObj (own_props
     [(''id'', Some (JStr (goal_id g))),
      (''name'', Some (JStr (goal_name g))),
      (''targetAmount'', Some (json_of_num (targetAmount g))),
      (''currentAmount'', Some (json_of_num (currentAmount g))),
      (''currency'', map_option JStr (goal_currency g)),
      (''deadline'', map_option JStr (deadline g)),
      (''category'', Some (JStr (goal_category_name (goal_category g)))),
      (''linkedAssetId'', map_option JStr (goal_linkedAssetId g))])"

definition goal_of_json :: "json \<Rightarrow> Goal option" where
  "goal_of_json j =
     do { i \<leftarrow> as_str (get_prop j ''id'');
          n \<leftarrow> as_str (get_prop j ''name'');
          ta \<leftarrow> as_num (get_prop j ''targetAmount'');
          ca \<leftarrow> as_num (get_prop j ''currentAmount'');
          cur \<leftarrow> as_opt as_str (get_prop j ''currency'');
          dl \<leftarrow> as_opt as_str (get_prop j ''deadline'');
          cat \<leftarrow> as_goal_category (get_prop j ''category'');
          la \<leftarrow> as_opt as_str (get_prop j ''linkedAssetId'');
          Some \<lparr>goal_id = i, goal_name = n, targetAmount = ta, currentAmount = ca,
                goal_currency = cur, deadline = dl, goal_category = cat,
                goal_linkedAssetId = la\<rparr> }"

definition json_of_legacy :: "LegacyProfile \<Rightarrow> json" where
  "json_of_legacy l =
     JObj [(''successorName'', JStr (successorName l)),
           (''recoveryPasskey'', JStr (recoveryPasskey l)),
           (''isConfigured'', JBool (isConfigured l)),
           (''lastUpdated'', JStr (lastUpdated l))]"

definition legacy_of_json :: "json \<Rightarrow> LegacyProfile option" where
  "legacy_of_json j =
     do { sn \<leftarrow> as_str (get_prop j ''successorName'');
          pk \<leftarrow> as_str (get_prop j ''recoveryPasskey'');
          c \<leftarrow> as_bool (get_prop j ''isConfigured'');
          lu \<leftarrow> as_str (get_prop j ''lastUpdated'');
          Some \<lparr>successorName = sn, recoveryPasskey = pk, isConfigured = c, lastUpdated = lu\<rparr> }"

definition json_of_settings :: "Settings \<Rightarrow> json" where
  "json_of_settings st = JObj (own_props
     [(''currency'', Some (JStr (settings_currency st))),
      (''userName'', Some (JStr (userName st))),
      (''biometricEnabled'', Some (JBool (biometricEnabled st))),
      (''termsAccepted'', Some (JBool (termsAccepted st))),
      (''spreadsheetId'', map_option JStr (spreadsheetId st)),
      (''monthlyBudgetLimit'', map_option json_of_num (monthlyBudgetLimit st))])"

definition settings_of_json :: "json \<Rightarrow> Settings option" where
  "settings_of_json j =
     do { c \<leftarrow> as_str (get_prop j ''currency'');
          un \<leftarrow> as_str (get_prop j ''userName'');
          b \<leftarrow> as_bool (get_prop j ''biometricEnabled'');
          t \<leftarrow> as_bool (get_prop j ''termsAccepted'');
          sp \<leftarrow> as_opt as_str (get_prop j ''spreadsheetId'');
          ml \<leftarrow> as_opt as_num (get_prop j ''monthlyBudgetLimit'');
          Some \<lparr>settings_currency = c, userName = un, biometricEnabled = b, termsAccepted = t,
                spreadsheetId = sp, monthlyBudgetLimit = ml\<rparr> }"

definition json_of_rates :: "rate_table \<Rightarrow> json" where
  "json_of_rates rs = JObj (map (\<lambda>(k, v). (k, json_of_num v)) rs)"

definition rate_of_json :: "string \<times> json \<Rightarrow> (string \<times> jsnum) option" where
  "rate_of_json kv = (case snd kv of JNum r \<Rightarrow> Some (fst kv, Num r) | _ \<Rightarrow> None)"

definition rates_of_json :: "json \<Rightarrow> rate_table option" where
  "rates_of_json j = (case j of JObj kvs \<Rightarrow> those_list (map rate_of_json kvs) | _ \<Rightarrow> None)"

definition as_obj :: "(json \<Rightarrow> 'a option) \<Rightarrow> json option \<Rightarrow> 'a option" where
  "as_obj f v = (case v of None \<Rightarrow> None | Some j \<Rightarrow> f j)"

text \<open>\<open>JSON.stringify(data)\<close> for a \<open>UserData\<close>.\<close>

definition JSON_stringify :: "UserData \<Rightarrow> json" where
  "JSON_stringify d = JObj (own_props
     [(''entries'', Some (JArr (map json_of_entry (entries d)))),
      (''goals'', Some (JArr (map json_of_goal (goals d)))),
      (''lastSynced'', Some (JStr (lastSynced d))),
      (''exchangeRates'', map_option json_of_rates (exchangeRates d)),
      (''legacy'', map_option json_of_legacy (legacy d)),
      (''settings'', Some (json_of_settings (settings d)))])"

text \<open>
  A parsed document read at the type \<open>UserData\<close>: \<open>None\<close> when the document does not
  have the shape of the type.
\<close>

definition UserData_of_json :: "json \<Rightarrow> UserData option" where
  "UserData_of_json j =
     do { es \<leftarrow> as_list entry_of_json (get_prop j ''entries'');
          gs \<leftarrow> as_list goal_of_json (get_prop j ''goals'');
          ls \<leftarrow> as_str (get_prop j ''lastSynced'');
          xr \<leftarrow> as_opt (as_obj rates_of_json) (get_prop j ''exchangeRates'');
          lg \<leftarrow> as_opt (as_obj legacy_of_json) (get_prop j ''legacy'');
          st \<leftarrow> as_obj settings_of_json (get_prop j ''settings'');
          Some \<lparr>entries = es, goals = gs, lastSynced = ls, exchangeRates = xr, legacy = lg,
                settings = st\<rparr> }"

text \<open>
  A value loaded from a storage medium is whatever was stored there; nothing checks it
  against the type that the signature of \<open>downloadData\<close> states. It is represented as a
  \<open>UserData\<close> when it reads at that type, and as the raw document otherwise.
\<close>

datatype document = Typed UserData | Untyped json

definition document_of_json :: "json \<Rightarrow> document" where
  "document_of_json j = (case UserData_of_json j of Some d \<Rightarrow> Typed d | None \<Rightarrow> Untyped j)"



section \<open>Storage backend (localDbService.ts, googleDriveService)\<close>

text \<open>A thrown \<open>Error\<close> or a rejected promise is \<open>Inl\<close> of a sum.\<close>

datatype js_error = Error string

datatype storage_mode = Drive | LocalDb | LocalFs

text \<open>A text, as \<open>JSON.parse\<close> sees it: a syntax error or a document.\<close>

datatype text_content = Unparseable | JsonText json

datatype file_content = FileText text_content | FileBytes string

text \<open>A directory handle: the files below it, by path.\<close>

type_synonym directory = "(string list \<times> file_content) list"

datatype idb_value = VaultBlob UserData | StatementBlob string string string

datatype drive_body = Folder | JsonBody json | Base64Body string string

record drive_file =
  file_id :: string
  file_name :: string
  file_parents :: "string list"
  trashed :: bool
  file_body :: drive_body

text \<open>
  \<open>GoogleDriveService\<close> with the media it talks to: the picked directory, the object
  store of IndexedDB, the files of the remote drive and the identifiers the drive will
  hand out next. \<open>faulty\<close> is the environment's switch for an I/O or network error: while
  it is set, every operation on a storage medium fails.
\<close>

record backend =
  mode :: storage_mode
  isBackendConfigured :: bool
  tokenClient :: bool
  accessToken :: "string option"
  directoryHandle :: "directory option"
  idb :: "(string \<times> idb_value) list"
  drive_files :: "drive_file list"
  drive_ids :: "string list"
  faulty :: bool

definition FILE_NAME :: string where
  "FILE_NAME = ''finaa_vault_v1.json''"

definition ROOT_FOLDER_NAME :: string where
  "ROOT_FOLDER_NAME = ''FinAA Archive''"

definition STORAGE_IDB_KEY :: string where
  "STORAGE_IDB_KEY = ''finaa_vault_blob''"

subsection \<open>LocalDbService\<close>

definition localDb_save :: "backend \<Rightarrow> string \<Rightarrow> idb_value \<Rightarrow> js_error + backend" where
  "localDb_save b key v =
     (if faulty b then Inl (Error ''IndexedDB request failed'')
      else Inr (b\<lparr>idb := AList.update key v (idb b)\<rparr>))"

definition localDb_get :: "backend \<Rightarrow> string \<Rightarrow> js_error + idb_value option" where
  "localDb_get b key =
     (if faulty b then Inl (Error ''IndexedDB request failed'')
      else Inr (map_of (idb b) key))"

subsection \<open>GoogleDriveService\<close>

text \<open>
  \<open>login\<close>. The outcome of the consent flow (\<open>granted\<close>, the token it delivers if any)
  and of the directory picker (\<open>picked\<close>) are the environment's.
\<close>

definition login :: "storage_mode \<Rightarrow> string option \<Rightarrow> directory option \<Rightarrow> backend \<Rightarrow> (js_error + bool) \<times> backend" where
  "login m granted picked b =
     (let b1 = b\<lparr>mode := m\<rparr>
      in case m of
           Drive \<Rightarrow>
             if \<not> isBackendConfigured b1
             then (Inl (Error ''Google Drive integration not configured.''), b1)
             else if \<not> tokenClient b1 then (Inl (Error ''TypeError''), b1)
             else
               (let b2 = (case granted of None \<Rightarrow> b1 | Some t \<Rightarrow> b1\<lparr>accessToken := Some t\<rparr>)
                in case accessToken b2 of
                     None \<Rightarrow> (Inl (Error ''Login timed out.''), b2)
                   | Some t \<Rightarrow>
                       if t = [] then (Inl (Error ''Login timed out.''), b2) else (Inr True, b2))
         | LocalFs \<Rightarrow>
             (case picked of
                None \<Rightarrow> (Inl (Error ''Local folder access is required for this mode.''), b1)
              | Some dir \<Rightarrow> (Inr True, b1\<lparr>directoryHandle := Some dir\<rparr>))
         | LocalDb \<Rightarrow> (Inr True, b1))"

text \<open>\<open>findFile\<close>: in drive mode the first file of that name that is not trashed.\<close>

definition findFile :: "backend \<Rightarrow> string \<Rightarrow> string option \<Rightarrow> js_error + string option" where
  "findFile b nm parentId =
     (if mode b = LocalFs then Inr (Some ''fs-vault'')
      else if mode b = LocalDb then Inr (Some ''idb-vault'')
      else if faulty b then Inl (Error ''Drive request failed'')
      else
        (case filter (\<lambda>f. file_name f = nm \<and> \<not> trashed f \<and>
                           (case parentId of
                              None \<Rightarrow> True
                            | Some p \<Rightarrow> p = [] \<or> p \<in> set (file_parents f)))
                     (drive_files b) of
           [] \<Rightarrow> Inr None
         | f # _ \<Rightarrow> Inr (Some (file_id f))))"

text \<open>A \<open>POST\<close> that creates a file; the drive picks the identifier.\<close>

definition drive_create :: "backend \<Rightarrow> string \<Rightarrow> string list \<Rightarrow> drive_body \<Rightarrow> (js_error + string) \<times> backend" where
  "drive_create b nm parents body =
     (if faulty b then (Inl (Error ''Drive request failed''), b)
      else case drive_ids b of
             [] \<Rightarrow> (Inl (Error ''Drive request failed''), b)
           | i # ids \<Rightarrow>
               (Inr i,
                b\<lparr>drive_files := drive_files b @
                      [\<lparr>file_id = i, file_name = nm, file_parents = parents, trashed = False,
                        file_body = body\<rparr>],
                  drive_ids := ids\<rparr>))"

text \<open>A \<open>PATCH\<close> of the file with the given identifier: new name and new content.\<close>

definition drive_patch :: "backend \<Rightarrow> string \<Rightarrow> string \<Rightarrow> drive_body \<Rightarrow> js_error + backend" where
  "drive_patch b fid nm body =
     (if faulty b \<or> fid \<notin> file_id ` set (drive_files b) then Inl (Error ''Drive request failed'')
      else Inr (b\<lparr>drive_files :=
                   map (\<lambda>f. if file_id f = fid then f\<lparr>file_name := nm, file_body := body\<rparr> else f)
                       (drive_files b)\<rparr>))"

definition truthy_id :: "string option \<Rightarrow> bool" where
  "truthy_id i = (case i of None \<Rightarrow> False | Some s \<Rightarrow> s \<noteq> [])"

definition ensureFolder :: "backend \<Rightarrow> string \<Rightarrow> string option \<Rightarrow> (js_error + string) \<times> backend" where
  "ensureFolder b nm parentId =
     (case findFile b nm parentId of
        Inl e \<Rightarrow> (Inl e, b)
      | Inr existing \<Rightarrow>
          if truthy_id existing then (Inr (the existing), b)
          else drive_create b nm
                 (case parentId of None \<Rightarrow> [] | Some p \<Rightarrow> if p = [] then [] else [p]) Folder)"

definition uploadBinaryFile :: "backend \<Rightarrow> string \<Rightarrow> string \<Rightarrow> string \<Rightarrow> string \<Rightarrow> (js_error + string) \<times> backend" where
  "uploadBinaryFile b base64 mimeType fileName parentId =
     drive_create b fileName [parentId] (Base64Body mimeType base64)"

text \<open>A name the file system accepts for a file or a directory.\<close>

definition valid_fs_name :: "string \<Rightarrow> bool" where
  "valid_fs_name n = (n \<noteq> [] \<and> n \<noteq> ''.'' \<and> n \<noteq> ''..'' \<and> CHR ''/'' \<notin> set n)"

text \<open>
  \<open>archiveStatement\<close>. \<open>suffix\<close> is \<open>Math.random().toString(36).slice(2, 6)\<close>. The
  local-filesystem and the drive branch catch every error and return \<open>null\<close>; the
  default branch awaits \<open>localDb.save\<close> outside any \<open>try\<close>.
\<close>

definition archiveStatement :: "backend \<Rightarrow> string \<Rightarrow> string \<Rightarrow> string \<Rightarrow> string \<Rightarrow> string \<Rightarrow> (js_error + string option) \<times> backend" where
  "archiveStatement b base64 mimeType accountName dt suffix =
     (let fileName = ''Statement_'' @ dt @ ''_'' @ suffix @ ''.png''
      in if mode b = LocalFs \<and> directoryHandle b \<noteq> None then
           (let monthStr = take 7 dt
            in if \<not> faulty b \<and> valid_fs_name monthStr \<and> valid_fs_name accountName
                  \<and> valid_fs_name fileName
               then
                 (Inr (Some (''fs://'' @ monthStr @ ''/'' @ accountName @ ''/'' @ fileName)),
                  b\<lparr>directoryHandle :=
                      Some (AList.update [ROOT_FOLDER_NAME, monthStr, accountName, fileName]
                              (FileBytes base64) (the (directoryHandle b)))\<rparr>)
               else (Inr None, b))
         else if mode b = Drive then
           (case ensureFolder b ROOT_FOLDER_NAME None of
              (Inl e, b1) \<Rightarrow> (Inr None, b1)
            | (Inr rootId, b1) \<Rightarrow>
                (case ensureFolder b1 (take 7 dt) (Some rootId) of
                   (Inl e, b2) \<Rightarrow> (Inr None, b2)
                 | (Inr monthId, b2) \<Rightarrow>
                     (case ensureFolder b2 accountName (Some monthId) of
                        (Inl e, b3) \<Rightarrow> (Inr None, b3)
                      | (Inr accountId, b3) \<Rightarrow>
                          (case uploadBinaryFile b3 base64 mimeType fileName accountId of
                             (Inl e, b4) \<Rightarrow> (Inr None, b4)
                           | (Inr i, b4) \<Rightarrow> (Inr (Some i), b4)))))
         else
           (let blobKey = ''blob_'' @ fileName
            in case localDb_save b blobKey (StatementBlob base64 mimeType dt) of
                 Inl e \<Rightarrow> (Inl e, b)
               | Inr b1 \<Rightarrow> (Inr (Some (''idb://'' @ blobKey)), b1)))"

text \<open>\<open>saveData\<close>: the whole document, in every mode.\<close>

definition saveData :: "backend \<Rightarrow> UserData \<Rightarrow> js_error + backend" where
  "saveData b data =
     (if mode b = LocalFs \<and> directoryHandle b \<noteq> None then
        (if faulty b then Inl (Error ''File system request failed'')
         else Inr (b\<lparr>directoryHandle :=
                      Some (AList.update [FILE_NAME] (FileText (JsonText (JSON_stringify data)))
                              (the (directoryHandle b)))\<rparr>))
      else if mode b = Drive then
        (case findFile b FILE_NAME None of
           Inl e \<Rightarrow> Inl e
         | Inr fileId \<Rightarrow>
             if truthy_id fileId
             then drive_patch b (the fileId) FILE_NAME (JsonBody (JSON_stringify data))
             else (case drive_create b FILE_NAME [] (JsonBody (JSON_stringify data)) of
                     (Inl e, b1) \<Rightarrow> Inl e
                   | (Inr i, b1) \<Rightarrow> Inr b1))
      else localDb_save b STORAGE_IDB_KEY (VaultBlob data))"

text \<open>
  \<open>downloadData\<close> returns what it finds, unchecked: the parsed text of the vault file,
  the \<open>result\<close> of the drive response (the parsed body, and \<open>false\<close> for a body that is
  not JSON), the value stored under the vault key. Only the default branch tests the
  value, for being falsy.
\<close>

definition downloadData :: "backend \<Rightarrow> string \<Rightarrow> js_error + document" where
  "downloadData b fileIdOrName =
     (if mode b = LocalFs \<and> directoryHandle b \<noteq> None then
        (if faulty b then Inl (Error ''File system request failed'')
         else case map_of (the (directoryHandle b)) [FILE_NAME] of
                None \<Rightarrow> Inl (Error ''NotFoundError'')
              | Some (FileText (JsonText j)) \<Rightarrow> Inr (document_of_json j)
              | Some _ \<Rightarrow> Inl (Error ''SyntaxError''))
      else if mode b = Drive then
        (if faulty b then Inl (Error ''Drive request failed'')
         else case filter (\<lambda>f. file_id f = fileIdOrName) (drive_files b) of
                [] \<Rightarrow> Inl (Error ''Drive request failed'')
              | f # _ \<Rightarrow>
                  (case file_body f of
                     JsonBody j \<Rightarrow> Inr (document_of_json j)
                   | Folder \<Rightarrow> Inl (Error ''Drive request failed'')
                   | Base64Body m c \<Rightarrow> Inr (Untyped (JBool False))))
      else
        (case localDb_get b STORAGE_IDB_KEY of
           Inl e \<Rightarrow> Inl e
         | Inr None \<Rightarrow> Inl (Error ''Vault not found in Local Storage.'')
         | Inr (Some (VaultBlob d)) \<Rightarrow> Inr (Typed d)
         | Inr (Some (StatementBlob base64 mimeType dt)) \<Rightarrow>
             Inr (Untyped (JObj [(''base64'', JStr base64), (''mimeType'', JStr mimeType),
                                 (''date'', JStr dt)]))))"


section \<open>Exchange-rate refresh (fetchExchangeRates, App.updateExchangeRates)\<close>

text \<open>
  The external model call either rejects or delivers a response whose \<open>text\<close> is absent
  (or empty) or some text. A parsed object has distinct keys.
\<close>

datatype ai_response = RequestFailed | ResponseText "text_content option"

fun truthy_json :: "json \<Rightarrow> bool" where
  "truthy_json JNull = False"
| "truthy_json (JBool b) = b"
| "truthy_json (JNum r) = (r \<noteq> 0)"
| "truthy_json (JStr s) = (s \<noteq> [])"
| "truthy_json (JArr xs) = True"
| "truthy_json (JObj ps) = True"

text \<open>\<open>v.k\<close> for the keys read here: a \<open>TypeError\<close> on \<open>null\<close>, \<open>undefined\<close> on a primitive or an array.\<close>

definition read_prop :: "json \<Rightarrow> string \<Rightarrow> js_error + json option" where
  "read_prop v k =
     (case v of
        JNull \<Rightarrow> Inl (Error ''TypeError'')
      | JObj ps \<Rightarrow> Inr (map_of ps k)
      | _ \<Rightarrow> Inr None)"

text \<open>\<open>Array.from(new Set(xs))\<close>: duplicates dropped, first occurrences kept in order.\<close>

definition dedupe :: "'a list \<Rightarrow> 'a list" where
  "dedupe xs = rev (remdups (rev xs))"

text \<open>
  One round of \<open>rawRates.forEach\<close>. \<open>toStr\<close> is the conversion of a value that is not a
  string to a property key. The assignment \<open>rates[key] = rate\<close> creates or overwrites an
  own property, except for the key \<open>__proto__\<close>, where it reaches the inherited setter,
  which ignores a number.
\<close>

definition rate_item :: "(json \<Rightarrow> string) \<Rightarrow> rate_table \<Rightarrow> json \<Rightarrow> js_error + rate_table" where
  "rate_item toStr rates item =
     (case read_prop item ''code'' of
        Inl e \<Rightarrow> Inl e
      | Inr None \<Rightarrow> Inr rates
      | Inr (Some c) \<Rightarrow>
          if \<not> truthy_json c then Inr rates
          else (case read_prop item ''rate'' of
                  Inl e \<Rightarrow> Inl e
                | Inr (Some (JNum r)) \<Rightarrow>
                    (let key = (case c of JStr k \<Rightarrow> k | _ \<Rightarrow> toStr c)
                     in if key = ''__proto__'' then Inr rates
                        else Inr (AList.update key (Num r) rates))
                | Inr _ \<Rightarrow> Inr rates))"

fun rate_items :: "(json \<Rightarrow> string) \<Rightarrow> rate_table \<Rightarrow> json list \<Rightarrow> js_error + rate_table" where
  "rate_items toStr rates [] = Inr rates"
| "rate_items toStr rates (item # items) =
     (case rate_item toStr rates item of
        Inl e \<Rightarrow> Inl e
      | Inr rates' \<Rightarrow> rate_items toStr rates' items)"

text \<open>The body of the \<open>try\<close> block of \<open>fetchExchangeRates\<close>.\<close>

definition parse_rates :: "(json \<Rightarrow> string) \<Rightarrow> string \<Rightarrow> text_content option \<Rightarrow> js_error + rate_table" where
  "parse_rates toStr baseCurrency txt =
     (case (case txt of None \<Rightarrow> JsonText (JObj []) | Some t \<Rightarrow> t) of
        Unparseable \<Rightarrow> Inl (Error ''SyntaxError'')
      | JsonText data \<Rightarrow>
          (case read_prop data ''rates'' of
             Inl e \<Rightarrow> Inl e
           | Inr v \<Rightarrow>
               (let rawRates = (case v of
                                  None \<Rightarrow> JArr []
                                | Some x \<Rightarrow> if truthy_json x then x else JArr [])
                in case rawRates of
                     JArr items \<Rightarrow> rate_items toStr [(baseCurrency, Num 1)] items
                   | _ \<Rightarrow> Inr [(baseCurrency, Num 1)])))"

definition fetchExchangeRates :: "(json \<Rightarrow> string) \<Rightarrow> string \<Rightarrow> string list \<Rightarrow> ai_response \<Rightarrow> js_error + rate_table" where
  "fetchExchangeRates toStr baseCurrency targetCurrencies resp =
     (if targetCurrencies = [] then Inr [(baseCurrency, Num 1)]
      else
        (let targets = filter (\<lambda>c. c \<noteq> baseCurrency) (dedupe targetCurrencies)
         in if targets = [] then Inr [(baseCurrency, Num 1)]
            else case resp of
                   RequestFailed \<Rightarrow> Inl (Error ''generateContent failed'')
                 | ResponseText txt \<Rightarrow>
                     (case parse_rates toStr baseCurrency txt of
                        Inl e \<Rightarrow> Inr [(baseCurrency, Num 1)]
                      | Inr rates \<Rightarrow> Inr rates)))"

text \<open>The state of \<open>App\<close> together with the storage service it drives.\<close>

record app_state =
  app_user :: "document option"
  isAuthenticated :: bool
  app_vaultLocked :: bool
  authError :: "string option"
  service :: backend

definition currenciesUsed :: "UserData \<Rightarrow> string list" where
  "currenciesUsed userData =
     dedupe (concat (map (\<lambda>e. case currency e of
                                 None \<Rightarrow> []
                               | Some c \<Rightarrow> if c = [] then [] else [c]) (entries userData)))"

text \<open>
  \<open>updateExchangeRates\<close>: one \<open>try\<close> around the fetch, \<open>setUser\<close> and the save; the
  \<open>catch\<close> only logs.
\<close>

definition updateExchangeRates :: "(json \<Rightarrow> string) \<Rightarrow> ai_response \<Rightarrow> UserData \<Rightarrow> app_state \<Rightarrow> app_state" where
  "updateExchangeRates toStr resp userData app =
     (if currenciesUsed userData \<noteq> [] then
        (case fetchExchangeRates toStr (settings_currency (settings userData))
                (currenciesUsed userData) resp of
           Inl e \<Rightarrow> app
         | Inr rates \<Rightarrow>
             (let updatedUser = userData\<lparr>exchangeRates := Some rates\<rparr>;
                  app1 = app\<lparr>app_user := Some (Typed updatedUser)\<rparr>
              in case saveData (service app1) updatedUser of
                   Inl e \<Rightarrow> app1
                 | Inr b' \<Rightarrow> app1\<lparr>service := b'\<rparr>))
      else app)"

section \<open>Login (App.handleLogin)\<close>

definition createInitialData :: "string \<Rightarrow> UserData" where
  "createInitialData now =
     \<lparr>entries = [], goals = [], lastSynced = now, exchangeRates = None, legacy = None,
      settings = \<lparr>settings_currency = ''USD'', userName = ''FinAA User'',
                   biometricEnabled = False, termsAccepted = False, spreadsheetId = None,
                   monthlyBudgetLimit = Some (Num 5000)\<rparr>\<rparr>"

text \<open>The outer \<open>catch\<close>: \<open>setAuthError(err.message || "Could not access storage. ...")\<close>.\<close>

definition login_failed :: "js_error \<Rightarrow> app_state \<Rightarrow> app_state" where
  "login_failed e app =
     app\<lparr>authError :=
           Some (case e of
                   Error msg \<Rightarrow>
                     if msg = [] then ''Could not access storage. Check permissions.'' else msg)\<rparr>"

text \<open>\<open>!v\<close> for the value of a property that may be absent.\<close>

definition falsy :: "json option \<Rightarrow> bool" where
  "falsy v = (case v of None \<Rightarrow> True | Some x \<Rightarrow> \<not> truthy_json x)"

text \<open>
  The two guards of \<open>handleLogin\<close>,
  \<open>if (!data.goals) data.goals = []; if (!data.settings) data.settings = createInitialData().settings\<close>.
  On a value of type \<open>UserData\<close> both conditions are false. On a document outside the
  type they fill in what is missing, after which the document may have the type. Reading
  a property of \<open>null\<close> throws, and so does (in module code, which is strict) the
  assignment of a property to a boolean, a number or a string; the properties assigned
  to an array are not represented.
\<close>

definition repair :: "string \<Rightarrow> document \<Rightarrow> js_error + document" where
  "repair now data =
     (case data of
        Typed d \<Rightarrow> Inr (Typed d)
      | Untyped j \<Rightarrow>
          (case j of
             JObj ps \<Rightarrow>
               (let ps1 = (if falsy (map_of ps ''goals'')
                           then AList.update ''goals'' (JArr []) ps else ps);
                    ps2 = (if falsy (map_of ps1 ''settings'')
                           then AList.update ''settings''
                                  (json_of_settings (settings (createInitialData now))) ps1
                           else ps1)
                in Inr (document_of_json (JObj ps2)))
           | JArr xs \<Rightarrow> Inr (Untyped (JArr xs))
           | _ \<Rightarrow> Inl (Error ''TypeError'')))"

text \<open>The condition \<open>data.settings.biometricEnabled\<close>, read after the guards.\<close>

definition biometric_flag :: "document \<Rightarrow> bool" where
  "biometric_flag data =
     (case data of
        Typed d \<Rightarrow> biometricEnabled (settings d)
      | Untyped j \<Rightarrow>
          (case j of
             JObj ps \<Rightarrow>
               (case map_of ps ''settings'' of
                  Some (JObj sp) \<Rightarrow> \<not> falsy (map_of sp ''biometricEnabled'')
                | _ \<Rightarrow> False)
           | _ \<Rightarrow> False))"

text \<open>
  \<open>handleLogin\<close>. With a file identifier, a failed download is replaced by fresh data
  and nothing is saved; without one, fresh data are created and saved. The three state
  updates \<open>setUser\<close>, \<open>setIsAuthenticated\<close> and \<open>setIsVaultLocked\<close> follow one
  another without an \<open>await\<close> between them. The rate refresh at the end is started
  without being awaited; it is a function of a \<open>UserData\<close>, and for a document that
  is still outside the type after the guards the model ends with the state that
  \<open>handleLogin\<close> itself leaves.
\<close>

definition handleLogin :: "storage_mode \<Rightarrow> string option \<Rightarrow> directory option \<Rightarrow> string \<Rightarrow> (json \<Rightarrow> string) \<Rightarrow> ai_response \<Rightarrow> app_state \<Rightarrow> app_state" where
  "handleLogin m granted picked now toStr resp app =
     (let app0 = app\<lparr>authError := None\<rparr>
      in case login m granted picked (service app0) of
           (Inl e, b1) \<Rightarrow> login_failed e (app0\<lparr>service := b1\<rparr>)
         | (Inr ok, b1) \<Rightarrow>
             (case findFile b1 FILE_NAME None of
                Inl e \<Rightarrow> login_failed e (app0\<lparr>service := b1\<rparr>)
              | Inr fileId \<Rightarrow>
                  (case (if truthy_id fileId
                         then (case downloadData b1 (the fileId) of
                                 Inl e \<Rightarrow> Inr (Typed (createInitialData now), b1)
                               | Inr loaded \<Rightarrow> Inr (loaded, b1))
                         else (case saveData b1 (createInitialData now) of
                                 Inl e \<Rightarrow> Inl e
                               | Inr b2 \<Rightarrow> Inr (Typed (createInitialData now), b2))) of
                     Inl e \<Rightarrow> login_failed e (app0\<lparr>service := b1\<rparr>)
                   | Inr (loaded, b2) \<Rightarrow>
                       (case repair now loaded of
                          Inl e \<Rightarrow> login_failed e (app0\<lparr>service := b2\<rparr>)
                        | Inr data \<Rightarrow>
                            (let app1 = app0\<lparr>service := b2, app_user := Some data,
                                              isAuthenticated := True,
                                              app_vaultLocked :=
                                                (if biometric_flag data then True
                                                 else app_vaultLocked app0)\<rparr>
                             in case data of
                                  Typed d \<Rightarrow> updateExchangeRates toStr resp d app1
                                | Untyped j \<Rightarrow> app1)))))"

text \<open>The vault-lock flag of the settings of the data the session holds.\<close>

definition session_flag :: "app_state \<Rightarrow> bool" where
  "session_flag app = (case app_user app of None \<Rightarrow> False | Some data \<Rightarrow> biometric_flag data)"

definition initial_app :: "backend \<Rightarrow> app_state" where
  "initial_app b =
     \<lparr>app_user = None, isAuthenticated = False, app_vaultLocked = False, authError = None,
      service = b\<rparr>"

section \<open>Creating entries (FinanceForms, CsvImporter)\<close>

subsection \<open>parseFloat and parseInt\<close>

text \<open>
  \<open>parseFloat\<close> on decimal literals: leading white space, an optional sign, digits with
  an optional fraction, an optional exponent; the longest such prefix counts and \<open>NaN\<close>
  is the answer when there is none. The value is the exact value of the literal: as
  everywhere in this model there is no rounding to a double, so a literal below the
  range of the doubles is not zero and one above it is not infinite. (The literal
  \<open>Infinity\<close> is outside the model.)
\<close>

definition is_digit :: "char \<Rightarrow> bool" where
  "is_digit c = (c \<in> set ''0123456789'')"

definition digit_val :: "char \<Rightarrow> nat" where
  "digit_val c = (case map_of (zip ''0123456789'' [0, 1, 2, 3, 4, 5, 6, 7, 8, 9]) c of
                    None \<Rightarrow> 0 | Some d \<Rightarrow> d)"

definition digits_val :: "string \<Rightarrow> nat" where
  "digits_val ds = foldl (\<lambda>a c. 10 * a + digit_val c) 0 ds"

definition strip_sign :: "string \<Rightarrow> string" where
  "strip_sign t = (case t of [] \<Rightarrow> [] | c # cs \<Rightarrow> if c = CHR ''-'' \<or> c = CHR ''+'' then cs else t)"

definition is_negative :: "string \<Rightarrow> bool" where
  "is_negative t = (case t of [] \<Rightarrow> False | c # cs \<Rightarrow> c = CHR ''-'')"

text \<open>The exponent part at the head of a text: \<open>e\<close> or \<open>E\<close>, an optional sign, digits.\<close>

definition exponent_of :: "string \<Rightarrow> int" where
  "exponent_of r =
     (case r of
        [] \<Rightarrow> 0
      | c # cs \<Rightarrow>
          if c = CHR ''e'' \<or> c = CHR ''E'' then
            (let ds = takeWhile is_digit (strip_sign cs)
             in if ds = [] then 0
                else if is_negative cs then - int (digits_val ds) else int (digits_val ds))
          else 0)"

definition scale10 :: "real \<Rightarrow> int \<Rightarrow> real" where
  "scale10 x k = (if k \<ge> 0 then x * 10 ^ nat k else x / 10 ^ nat (- k))"

definition parseFloat :: "string \<Rightarrow> jsnum" where
  "parseFloat s =
     (let t = dropWhile is_space s;
          u = strip_sign t;
          ip = takeWhile is_digit u;
          r1 = dropWhile is_digit u;
          hasDot = (case r1 of [] \<Rightarrow> False | c # cs \<Rightarrow> c = CHR ''.'');
          fp = (if hasDot then takeWhile is_digit (tl r1) else []);
          r2 = (if hasDot then dropWhile is_digit (tl r1) else r1)
      in if ip = [] \<and> fp = [] then NaN
         else
           (let m = real (digits_val ip) + real (digits_val fp) / 10 ^ length fp;
                v = scale10 m (exponent_of r2)
            in Num (if is_negative t then - v else v)))"

text \<open>\<open>parseInt\<close> on decimal integers (no radix prefix).\<close>

definition parseInt :: "string \<Rightarrow> jsnum" where
  "parseInt s =
     (let t = dropWhile is_space s;
          ip = takeWhile is_digit (strip_sign t)
      in if ip = [] then NaN
         else Num (if is_negative t then - real (digits_val ip) else real (digits_val ip)))"

subsection \<open>FinanceForms.handleSubmit\<close>

record formData =
  fd_name :: string
  fd_amount :: string
  fd_currency :: string
  fd_type :: EntryType
  fd_category :: string
  fd_address :: string
  fd_plotSize :: string
  fd_propertyType :: string
  fd_referenceNumber :: string
  fd_date :: string
  fd_isWorkProvided :: bool
  fd_liquidity :: liquidity_tier
  fd_coverageAmount :: string
  fd_emi :: string
  fd_monthsRemaining :: string

text \<open>
  The entry handed to \<open>onAdd\<close>, or none when the name or the amount field is empty.
  \<open>uuid\<close> is \<open>crypto.randomUUID()\<close>; \<open>valuation\<close> holds the sources of the valuation
  result when there is one.
\<close>

definition handleSubmit :: "formData \<Rightarrow> GroundingSource list option \<Rightarrow> string \<Rightarrow> string \<Rightarrow> FinanceEntry option" where
  "handleSubmit fd valuation uuid now =
     (if fd_name fd = [] \<or> fd_amount fd = [] then None
      else Some
        \<lparr>entry_id = uuid, entry_type = fd_type fd, category = fd_category fd, name = fd_name fd,
         amount = parseFloat (fd_amount fd),
         currency = Some (fd_currency fd),
         initialAmount = None,
         date = fd_date fd,
         address = Some (fd_address fd),
         plotSize = Some (fd_plotSize fd),
         propertyType = Some (fd_propertyType fd),
         valuationSources = valuation,
         lastValuated = (case valuation of None \<Rightarrow> None | Some v \<Rightarrow> Some now),
         referenceNumber = Some (fd_referenceNumber fd),
         linkedAssetId = None,
         statementDriveId = None,
         isRecurring = None,
         isWorkProvided = Some (fd_isWorkProvided fd),
         liquidity = Some (fd_liquidity fd),
         entry_notes = None,
         coverageAmount =
           (if fd_coverageAmount fd \<noteq> [] then Some (parseFloat (fd_coverageAmount fd)) else None),
         expiryDate = None,
         emi = (if fd_emi fd \<noteq> [] then Some (parseFloat (fd_emi fd)) else None),
         monthsRemaining =
           (if fd_monthsRemaining fd \<noteq> [] then Some (parseInt (fd_monthsRemaining fd)) else None)\<rparr>)"

subsection \<open>CsvImporter.mapToEntry\<close>

definition toLowerCase_char :: "char \<Rightarrow> char" where
  "toLowerCase_char c =
     (case map_of (zip ''ABCDEFGHIJKLMNOPQRSTUVWXYZ'' ''abcdefghijklmnopqrstuvwxyz'') c of
        None \<Rightarrow> c
      | Some l \<Rightarrow> l)"

definition toLowerCase :: "string \<Rightarrow> string" where
  "toLowerCase s = map toLowerCase_char s"

fun str_includes :: "string \<Rightarrow> string \<Rightarrow> bool" where
  "str_includes [] t = (t = [])"
| "str_includes (c # cs) t = (take (length t) (c # cs) = t \<or> str_includes cs t)"

text \<open>\<open>a || b\<close> on a string that may be missing: the empty string is falsy.\<close>

definition str_or :: "string option \<Rightarrow> string \<Rightarrow> string" where
  "str_or a b = (case a of None \<Rightarrow> b | Some x \<Rightarrow> if x = [] then b else x)"

text \<open>
  A parsed CSV row maps the lower-cased headers to the trimmed cells. \<open>parseDate\<close> is
  \<open>new Date(s).toISOString().split('T')[0]\<close>, with \<open>None\<close> for an invalid date, on which
  \<open>toISOString\<close> throws a \<open>RangeError\<close>.
\<close>

definition mapToEntry :: "string \<Rightarrow> string \<Rightarrow> string \<Rightarrow> (string \<Rightarrow> string option) \<Rightarrow> (string \<times> string) list \<Rightarrow> js_error + FinanceEntry" where
  "mapToEntry baseCurrency uuid today parseDate raw =
     (let nm = str_or (map_of raw ''name'')
                 (str_or (map_of raw ''description'')
                    (str_or (map_of raw ''merchant'') ''Unknown Merchant''));
          amountStr = str_or (map_of raw ''amount'')
                        (str_or (map_of raw ''value'')
                           (str_or (map_of raw ''amount (gbp)'') ''0''));
          amt = Math_abs (parseFloat amountStr);
          isCredit = js_gt (parseFloat amountStr) (Num 0);
          lowName = toLowerCase nm;
          cat = (if isCredit then ''Income''
                 else if str_includes lowName ''rent'' \<or> str_includes lowName ''council''
                      \<or> str_includes lowName ''utility'' \<or> str_includes lowName ''ee''
                      \<or> str_includes lowName ''tesco'' \<or> str_includes lowName ''lidl''
                      \<or> str_includes lowName ''insurance'' then ''Needs''
                 else if str_includes lowName ''savings'' \<or> str_includes lowName ''isa''
                      \<or> str_includes lowName ''vanguard'' then ''Savings''
                 else if str_includes lowName ''loan'' \<or> str_includes lowName ''mortgage''
                      \<or> str_includes lowName ''credit card'' then ''Debt''
                 else ''Wants'')
      in case (if str_or (map_of raw ''date'') [] = [] then Some today
               else parseDate (str_or (map_of raw ''date'') [])) of
           None \<Rightarrow> Inl (Error ''RangeError'')
         | Some dt \<Rightarrow>
             Inr \<lparr>entry_id = uuid, entry_type = (if isCredit then ASSET else EXPENSE),
                  category = cat, name = nm, amount = amt,
                  currency = Some (str_or (map_of raw ''currency'') baseCurrency),
                  initialAmount = None, date = dt, address = None, plotSize = None,
                  propertyType = None, valuationSources = None, lastValuated = None,
                  referenceNumber = None, linkedAssetId = None, statementDriveId = None,
                  isRecurring = None, isWorkProvided = None, liquidity = Some High,
                  entry_notes = None, coverageAmount = None, expiryDate = None, emi = None,
                  monthsRemaining = None\<rparr>)"

subsection \<open>FinanceForms.handleFileUpload\<close>

text \<open>A transaction as \<open>processDocument\<close> returns it: every property may be missing.\<close>

record extracted =
  x_name :: "string option"
  x_amount :: "jsnum option"
  x_currency :: "string option"
  x_date :: "string option"
  x_type :: "EntryType option"
  x_category :: "string option"
  x_referenceNumber :: "string option"
  x_isWorkProvided :: "bool option"
  x_coverageAmount :: "jsnum option"

text \<open>\<open>processDocument\<close> rejects, or resolves to the extracted transactions.\<close>

datatype scan_result = ScanFailed | Scanned "extracted list"

definition extracted_entry :: "string \<Rightarrow> string \<Rightarrow> string \<Rightarrow> string option \<Rightarrow> extracted \<Rightarrow> FinanceEntry" where
  "extracted_entry baseCurrency uuid today driveId res =
     \<lparr>entry_id = uuid,
      entry_type = (case x_type res of None \<Rightarrow> EXPENSE | Some t \<Rightarrow> t),
      category = str_or (x_category res) ''General'',
      name = str_or (x_name res) ''Unnamed Transaction'',
      amount = (case x_amount res of None \<Rightarrow> Num 0 | Some a \<Rightarrow> num_or a (Num 0)),
      currency = Some (str_or (x_currency res) baseCurrency),
      initialAmount = None,
      date = str_or (x_date res) today,
      address = None, plotSize = None, propertyType = None, valuationSources = None,
      lastValuated = None,
      referenceNumber = Some (str_or (x_referenceNumber res) []),
      linkedAssetId = None,
      statementDriveId = (if truthy_id driveId then driveId else None),
      isRecurring = None,
      isWorkProvided = Some (case x_isWorkProvided res of None \<Rightarrow> False | Some w \<Rightarrow> w),
      liquidity = Some Medium,
      entry_notes = None,
      coverageAmount = x_coverageAmount res,
      expiryDate = None, emi = None, monthsRemaining = None\<rparr>"

text \<open>
  The loop \<open>for (const res of results)\<close>: archive the statement, then push the entry.
  A rejection of \<open>archiveStatement\<close> leaves the loop. \<open>uuids\<close> and \<open>suffixes\<close> give the
  random identifier and file-name suffix of each round.
\<close>

fun upload_loop :: "string \<Rightarrow> string \<Rightarrow> string \<Rightarrow> string \<Rightarrow> (nat \<Rightarrow> string) \<Rightarrow> (nat \<Rightarrow> string) \<Rightarrow> nat \<Rightarrow> extracted list \<Rightarrow> backend \<Rightarrow> FinanceEntry list \<Rightarrow> (js_error + FinanceEntry list) \<times> backend" where
  "upload_loop base64 mimeType baseCurrency today uuids suffixes i [] b newEntries =
     (Inr newEntries, b)"
| "upload_loop base64 mimeType baseCurrency today uuids suffixes i (res # rest) b newEntries =
     (case archiveStatement b base64 mimeType (str_or (x_name res) ''Unknown Merchant'')
             (str_or (x_date res) today) (suffixes i) of
        (Inl e, b1) \<Rightarrow> (Inl e, b1)
      | (Inr driveId, b1) \<Rightarrow>
          upload_loop base64 mimeType baseCurrency today uuids suffixes (Suc i) rest b1
            (newEntries @ [extracted_entry baseCurrency (uuids i) today driveId res]))"

text \<open>
  \<open>handleFileUpload\<close>: the entries handed to \<open>onAddBulk\<close>, or none when it is not called
  (no transaction found, or an error caught by the outer \<open>catch\<close>).
\<close>

definition handleFileUpload :: "string \<Rightarrow> string \<Rightarrow> string \<Rightarrow> string \<Rightarrow> (nat \<Rightarrow> string) \<Rightarrow> (nat \<Rightarrow> string) \<Rightarrow> scan_result \<Rightarrow> backend \<Rightarrow> FinanceEntry list option \<times> backend" where
  "handleFileUpload base64 mimeType baseCurrency today uuids suffixes scan b =
     (case scan of
        ScanFailed \<Rightarrow> (None, b)
      | Scanned results \<Rightarrow>
          if results = [] then (None, b)
          else (case upload_loop base64 mimeType baseCurrency today uuids suffixes 0 results b [] of
                  (Inl e, b1) \<Rightarrow> (None, b1)
                | (Inr newEntries, b1) \<Rightarrow> (Some newEntries, b1)))"



text \<open>A service before any login, and one logged in to each mode on empty media.\<close>

definition initial_backend :: backend where
  "initial_backend =
     \<lparr>mode = LocalDb, isBackendConfigured = False, tokenClient = False, accessToken = None,
      directoryHandle = None, idb = [], drive_files = [], drive_ids = [], faulty = False\<rparr>"

definition backend0 :: "storage_mode \<Rightarrow> backend" where
  "backend0 m =
     (case m of
        LocalDb \<Rightarrow> initial_backend
      | LocalFs \<Rightarrow> initial_backend\<lparr>mode := LocalFs, directoryHandle := Some []\<rparr>
      | Drive \<Rightarrow> initial_backend\<lparr>mode := Drive, isBackendConfigured := True, tokenClient := True,
                                  accessToken := Some ''token'',
                                  drive_ids := [''f1'', ''f2'', ''f3'', ''f4'', ''f5'']\<rparr>)"

section \<open>Example data\<close>

text \<open>
  Concrete snapshots, forms and backends at which the properties below are instantiated.
\<close>

definition example_settings :: Settings where
  "example_settings =
     \<lparr>settings_currency = ''USD'', userName = ''FinAA User'', biometricEnabled = False,
      termsAccepted = False, spreadsheetId = None, monthlyBudgetLimit = Some (Num 5000)\<rparr>"

definition example_entry :: "string \<Rightarrow> EntryType \<Rightarrow> string \<Rightarrow> jsnum \<Rightarrow> string option \<Rightarrow> FinanceEntry" where
  "example_entry i t cat a cur =
     \<lparr>entry_id = i, entry_type = t, category = cat, name = ''Item'', amount = a, currency = cur,
      initialAmount = None, date = ''2025-06-15'', address = None, plotSize = None,
      propertyType = None, valuationSources = None, lastValuated = None,
      referenceNumber = None, linkedAssetId = None, statementDriveId = None,
      isRecurring = None, isWorkProvided = None, liquidity = None, entry_notes = None,
      coverageAmount = None, expiryDate = None, emi = None, monthsRemaining = None\<rparr>"

definition example_data :: UserData where
  "example_data =
     \<lparr>entries = [example_entry ''e1'' ASSET ''Savings'' (Num 100) (Some ''GBP''),
                 example_entry ''e2'' LIABILITY ''Debt'' (Num 50) (Some ''USD''),
                 example_entry ''e3'' ASSET ''Income'' (Num 30) None,
                 example_entry ''e4'' EXPENSE ''Needs'' (Num 7) (Some ''GBP'')],
      goals = [], lastSynced = ''2025-06-15T10:00:00.000Z'',
      exchangeRates = Some [(''USD'', Num 1), (''GBP'', Num (127 / 100))],
      legacy = None, settings = example_settings\<rparr>"

definition now0 :: string where
  "now0 = ''2025-06-15T10:00:00.000Z''"

definition rnd0 :: "nat \<Rightarrow> real" where
  "rnd0 i = real i / 16"

definition legacy0 :: LegacyProfile where
  "legacy0 = handleGeneratePasskey rnd0 ''Alex'' ''2025-06-15T10:00:00.000Z''"

definition locked_data :: UserData where
  "locked_data =
     example_data\<lparr>legacy := Some legacy0,
                   settings := example_settings\<lparr>biometricEnabled := True\<rparr>\<rparr>"

definition locked_db :: backend where
  "locked_db = initial_backend\<lparr>idb := [(STORAGE_IDB_KEY, VaultBlob locked_data)]\<rparr>"

definition app_example :: app_state where
  "app_example =
     (initial_app (backend0 LocalDb))\<lparr>app_user := Some (Typed example_data),
                                      isAuthenticated := True\<rparr>"




definition refund_form :: formData where
  "refund_form =
     \<lparr>fd_name = ''Refund'', fd_amount = ''-50'', fd_currency = ''USD'', fd_type = EXPENSE,
      fd_category = ''Wants'', fd_address = [], fd_plotSize = [], fd_propertyType = ''Home'',
      fd_referenceNumber = [], fd_date = ''2025-06-15'', fd_isWorkProvided = False,
      fd_liquidity = Medium, fd_coverageAmount = [], fd_emi = [], fd_monthsRemaining = []\<rparr>"

definition faulty_db :: backend where
  "faulty_db = initial_backend\<lparr>faulty := True\<rparr>"

definition tesco :: extracted where
  "tesco = \<lparr>x_name = Some ''Tesco'', x_amount = Some (Num 12), x_currency = Some ''GBP'',
            x_date = Some ''2025-06-10'', x_type = Some EXPENSE, x_category = Some ''Needs'',
            x_referenceNumber = None, x_isWorkProvided = None, x_coverageAmount = None\<rparr>"

section \<open>Properties of currency normalization and net worth\<close>

lemma num_or_numeric: "a \<noteq> NaN \<Longrightarrow> num_or a (Num 0) = a"
  by (cases a) (auto simp: num_or_def)

lemma stats_step_assets:
  "assets (stats_step data cm acc e) =
     (if entry_type e = ASSET
      then js_add (assets acc) (getConvertedAmount data (num_or (amount e) (Num 0)) (currency e))
      else assets acc)"
  by (simp add: stats_step_def Let_def)

lemma stats_step_debt:
  "debt (stats_step data cm acc e) =
     (if entry_type e = LIABILITY
      then js_add (debt acc) (getConvertedAmount data (num_or (amount e) (Num 0)) (currency e))
      else debt acc)"
  by (simp add: stats_step_def Let_def)

lemma foldl_stats_assets:
  "assets (foldl (stats_step data cm) acc es) =
     foldl js_add (assets acc)
       (map (\<lambda>e. getConvertedAmount data (num_or (amount e) (Num 0)) (currency e))
            (filter (\<lambda>e. entry_type e = ASSET) es))"
  by (induction es arbitrary: acc) (simp_all add: stats_step_assets)

lemma foldl_stats_debt:
  "debt (foldl (stats_step data cm) acc es) =
     foldl js_add (debt acc)
       (map (\<lambda>e. getConvertedAmount data (num_or (amount e) (Num 0)) (currency e))
            (filter (\<lambda>e. entry_type e = LIABILITY) es))"
  by (induction es arbitrary: acc) (simp_all add: stats_step_debt)

lemma converted_eq_spec:
  assumes "case currency e of
             None \<Rightarrow> True
           | Some c \<Rightarrow> c \<noteq> [] \<and>
               (c = settings_currency (settings data) \<or>
                (case map_of rates c of None \<Rightarrow> False | Some r \<Rightarrow> truthy_num r))"
      and "amount e \<noteq> NaN"
      and "exchangeRates data = Some rates"
  shows "getConvertedAmount data (num_or (amount e) (Num 0)) (currency e) =
           spec_base_converted (settings_currency (settings data)) rates e"
  using assms
  by (auto simp: getConvertedAmount_def rate_lookup_def spec_base_converted_def num_or_numeric
           split: option.splits)

lemma map_converted_eq_spec:
  assumes "rates_complete (settings_currency (settings data)) rates es"
      and "amounts_numeric es"
      and "exchangeRates data = Some rates"
  shows "map (\<lambda>e. getConvertedAmount data (num_or (amount e) (Num 0)) (currency e)) (filter P es) =
         map (spec_base_converted (settings_currency (settings data)) rates) (filter P es)"
proof (rule map_cong[OF refl])
  fix e assume "e \<in> set (filter P es)"
  then have mem: "e \<in> set es" by simp
  from mem assms(1) have c: "case currency e of
             None \<Rightarrow> True
           | Some c \<Rightarrow> c \<noteq> [] \<and>
               (c = settings_currency (settings data) \<or>
                (case map_of rates c of None \<Rightarrow> False | Some r \<Rightarrow> truthy_num r))"
    by (simp add: rates_complete_def list_all_iff)
  from mem assms(2) have n: "amount e \<noteq> NaN"
    by (simp add: amounts_numeric_def list_all_iff)
  show "getConvertedAmount data (num_or (amount e) (Num 0)) (currency e) =
        spec_base_converted (settings_currency (settings data)) rates e"
    by (rule converted_eq_spec[OF c n assms(3)])
qed

text \<open>
  A currency code that is missing from the cached rate table and is not the name of a
  member of \<open>Object.prototype\<close> reads as \<open>undefined\<close>, and both conversion functions
  return the amount they were given; so does \<open>getConverted\<close> for any code when no table
  is cached.
\<close>

lemma conversion_of_unknown_code:
  assumes "map_of (case exchangeRates data of None \<Rightarrow> [] | Some r \<Rightarrow> r) c = None"
      and "c \<notin> set Object_prototype_members"
  shows "getConvertedAmount data amt (Some c) = amt"
    and "currency item = Some c \<Longrightarrow>
           getConverted item (settings_currency (settings data)) (exchangeRates data) amt = amt"
  using assms
  by (auto simp: getConvertedAmount_def getConverted_def rate_lookup_def split: option.splits)

lemma getConverted_without_table:
  "getConverted item base None amt = amt"
  by (simp add: getConverted_def split: option.splits)

text \<open>
  C4 at a failing input. C4 wants a currency code that is missing from the cached rate
  table to leave the amount unchanged. The CSV import takes the currency code from the
  currency column as it stands; a row with the code \<open>constructor\<close> gives an entry of
  250 in that currency. With the cached table \<open>{USD: 1, GBP: 1.27}\<close> and base currency
  USD the code is missing from the table, but \<open>rates[code]\<close> finds the member of that
  name which the table object inherits, the test \<open>if (rateToBase)\<close> succeeds, and the
  amount divided by it is \<open>NaN\<close>, on the dashboard and in the account matrix. A
  missing code that names no inherited member, such as EUR, gives the amount back.
\<close>

theorem conversion_of_inherited_member_name_is_NaN:
  "map_option (\<lambda>e. (amount e, currency e))
      (case mapToEntry ''USD'' ''id-csv'' ''2025-06-15'' Some
              [(''name'', ''Taxi''), (''amount'', ''250''), (''currency'', ''constructor'')] of
         Inl err \<Rightarrow> None | Inr e \<Rightarrow> Some e)
     = Some (Num 250, Some ''constructor'')
   \<and> map_of (case exchangeRates example_data of None \<Rightarrow> [] | Some r \<Rightarrow> r) ''constructor'' = None
   \<and> getConvertedAmount example_data (Num 250) (Some ''constructor'') = NaN
   \<and> getConverted (example_entry ''e9'' ASSET ''Savings'' (Num 250) (Some ''constructor''))
        (settings_currency (settings example_data)) (exchangeRates example_data) (Num 250) = NaN
   \<and> getConvertedAmount example_data (Num 250) (Some ''EUR'') = Num 250"
proof -
  have p: "parseFloat ''250'' = Num 250"
    by (simp add: parseFloat_def is_space_def strip_sign_def is_digit_def digits_val_def
          digit_val_def is_negative_def exponent_of_def scale10_def Let_def)
  have 1: "map_option (\<lambda>e. (amount e, currency e))
      (case mapToEntry ''USD'' ''id-csv'' ''2025-06-15'' Some
              [(''name'', ''Taxi''), (''amount'', ''250''), (''currency'', ''constructor'')] of
         Inl err \<Rightarrow> None | Inr e \<Rightarrow> Some e)
     = Some (Num 250, Some ''constructor'')"
    by (simp add: mapToEntry_def str_or_def p Let_def)
  have 2: "map_of (case exchangeRates example_data of None \<Rightarrow> [] | Some r \<Rightarrow> r) ''constructor'' = None
   \<and> getConvertedAmount example_data (Num 250) (Some ''constructor'') = NaN
   \<and> getConverted (example_entry ''e9'' ASSET ''Savings'' (Num 250) (Some ''constructor''))
        (settings_currency (settings example_data)) (exchangeRates example_data) (Num 250) = NaN
   \<and> getConvertedAmount example_data (Num 250) (Some ''EUR'') = Num 250"
    by (simp add: getConvertedAmount_def getConverted_def rate_lookup_def
          Object_prototype_members_def example_data_def example_settings_def example_entry_def)
  from 1 2 show ?thesis by simp
qed

text \<open>
  C2. For every entry list whose amounts are numbers and every rate table that is complete
  for it, the net worth computed by \<open>Dashboard.stats\<close> is the sum of the base-converted
  amounts of the ASSET entries minus the sum of the base-converted amounts of the
  LIABILITY entries (sums taken in list order).
\<close>

theorem net_worth_is_assets_minus_liabilities:
  assumes "exchangeRates data = Some rates"
      and "rates_complete (settings_currency (settings data)) rates (entries data)"
      and "amounts_numeric (entries data)"
  shows "netWorth (stats data currentMonth) =
           spec_net_worth (settings_currency (settings data)) rates (entries data)"
proof -
  have a: "assets (stats_loop data currentMonth) =
             js_sum (map (spec_base_converted (settings_currency (settings data)) rates)
                         (filter (\<lambda>e. entry_type e = ASSET) (entries data)))"
    unfolding stats_loop_def js_sum_def foldl_stats_assets
    by (simp add: map_converted_eq_spec[OF assms(2) assms(3) assms(1)])
  have d: "debt (stats_loop data currentMonth) =
             js_sum (map (spec_base_converted (settings_currency (settings data)) rates)
                         (filter (\<lambda>e. entry_type e = LIABILITY) (entries data)))"
    unfolding stats_loop_def js_sum_def foldl_stats_debt
    by (simp add: map_converted_eq_spec[OF assms(2) assms(3) assms(1)])
  show ?thesis
    by (simp add: stats_def Let_def spec_net_worth_def a d)
qed

theorem net_worth_is_assets_minus_liabilities_witness:
  "exchangeRates example_data = Some [(''USD'', Num 1), (''GBP'', Num (127 / 100))]
   \<and> rates_complete ''USD'' [(''USD'', Num 1), (''GBP'', Num (127 / 100))] (entries example_data)
   \<and> amounts_numeric (entries example_data)
   \<and> netWorth (stats example_data ''2025-06'') = Num (100 / (127 / 100) + 30 - 50)"
proof -
  have r: "exchangeRates example_data = Some [(''USD'', Num 1), (''GBP'', Num (127 / 100))]"
    by (simp add: example_data_def)
  have b: "settings_currency (settings example_data) = ''USD''"
    by (simp add: example_data_def example_settings_def)
  have c: "rates_complete (settings_currency (settings example_data))
             [(''USD'', Num 1), (''GBP'', Num (127 / 100))] (entries example_data)"
    by (simp add: rates_complete_def example_data_def example_settings_def example_entry_def)
  have n: "amounts_numeric (entries example_data)"
    by (simp add: amounts_numeric_def example_data_def example_entry_def)
  have v: "spec_net_worth ''USD'' [(''USD'', Num 1), (''GBP'', Num (127 / 100))] (entries example_data)
             = Num (100 / (127 / 100) + 30 - 50)"
    by (simp add: spec_net_worth_def spec_base_converted_def js_sum_def example_data_def
                  example_entry_def)
  from net_worth_is_assets_minus_liabilities[OF r c n, of "''2025-06''"] r c n v b
  show ?thesis by simp
qed

section \<open>Properties of the mutation protocol\<close>

text \<open>
  C7, as stated, asks every mutating intent to refresh \<open>lastSynced\<close>. \<open>acceptTerms\<close> does
  not: on a snapshot last synced on 15 June, accepting the terms on 1 July leaves the
  timestamp of 15 June in place.
\<close>

theorem acceptTerms_keeps_old_lastSynced:
  "map_option lastSynced (acceptTerms ''2025-07-01T00:00:00.000Z'' (Some example_data))
     = Some ''2025-06-15T10:00:00.000Z''
   \<and> map_option lastSynced (acceptTerms ''2025-07-01T00:00:00.000Z'' (Some example_data))
     \<noteq> Some ''2025-07-01T00:00:00.000Z''"
  by (simp add: acceptTerms_def example_data_def)

text \<open>
  C7, amended. Add entry, add entries in bulk, update entry and set legacy profile each
  give a copy of the current snapshot in which only the intended field and \<open>lastSynced\<close>
  (set to the current timestamp) differ. Accept terms gives a copy in which the entries,
  goals, rate table and legacy profile are unchanged and the settings differ only in
  \<open>termsAccepted\<close>, now true. The controller has no handler for goals.
\<close>

theorem mutations_copy_and_stamp:
  "addEntry now e (Some u) =
     Some \<lparr>entries = e # entries u, goals = goals u, lastSynced = now,
           exchangeRates = exchangeRates u, legacy = legacy u, settings = settings u\<rparr>
   \<and> addEntries now es (Some u) =
     Some \<lparr>entries = es @ entries u, goals = goals u, lastSynced = now,
           exchangeRates = exchangeRates u, legacy = legacy u, settings = settings u\<rparr>
   \<and> updateEntry now e (Some u) =
     Some \<lparr>entries = map (\<lambda>x. if entry_id x = entry_id e then e else x) (entries u),
           goals = goals u, lastSynced = now,
           exchangeRates = exchangeRates u, legacy = legacy u, settings = settings u\<rparr>
   \<and> updateLegacy now l (Some u) =
     Some \<lparr>entries = entries u, goals = goals u, lastSynced = now,
           exchangeRates = exchangeRates u, legacy = Some l, settings = settings u\<rparr>
   \<and> map_option entries (acceptTerms now (Some u)) = Some (entries u)
   \<and> map_option goals (acceptTerms now (Some u)) = Some (goals u)
   \<and> map_option exchangeRates (acceptTerms now (Some u)) = Some (exchangeRates u)
   \<and> map_option legacy (acceptTerms now (Some u)) = Some (legacy u)
   \<and> map_option settings (acceptTerms now (Some u)) =
       Some \<lparr>settings_currency = settings_currency (settings u), userName = userName (settings u),
             biometricEnabled = biometricEnabled (settings u), termsAccepted = True,
             spreadsheetId = spreadsheetId (settings u),
             monthlyBudgetLimit = monthlyBudgetLimit (settings u)\<rparr>"
  by (simp add: addEntry_def addEntries_def updateEntry_def updateLegacy_def acceptTerms_def)

section \<open>Properties of the vault lock and the recovery passkey\<close>

lemma passkey_loop_rnd0: "passkey_loop rnd0 0 [] = ''ACEG-JLNQ-SUWY-2468''"
  by (simp add: passkey_loop.simps rnd0_def charset_def charAt_def Let_def)

lemma recoveryPasskey_legacy0: "recoveryPasskey legacy0 = ''ACEG-JLNQ-SUWY-2468''"
  by (simp add: legacy0_def handleGeneratePasskey_def passkey_loop_rnd0)

lemma normalizedInput_hyphenated:
  "normalizedInput ascii_strings ''ACEG-JLNQ-SUWY-2468'' = ''ACEG-JLNQ-SUWY-2468''"
  by (simp add: normalizedInput_def ascii_strings_def trim_def toUpperCase_def
        toUpperCase_char_def is_space_def)

lemma normalizedInput_spaced:
  "normalizedInput ascii_strings ''aceg jlnq suwy 2468'' = ''ACEGJLNQSUWY2468''"
  by (simp add: normalizedInput_def ascii_strings_def trim_def toUpperCase_def
        toUpperCase_char_def is_space_def)

lemma normalizedPasskey_hyphenated:
  "normalizedPasskey ascii_strings ''ACEG-JLNQ-SUWY-2468'' = ''ACEGJLNQSUWY2468''"
  by (simp add: normalizedPasskey_def ascii_strings_def trim_def toUpperCase_def
        toUpperCase_char_def is_space_def)

text \<open>
  The generation half of C6: with every value of \<open>Math.random()\<close> in \<open>[0, 1)\<close>, the
  passkey consists of 16 characters of the 32-symbol alphabet (the capital letters
  without I and O, the digits 2 to 9) in four blocks of four, separated by hyphens.
\<close>

lemma random_index:
  assumes "0 \<le> r" "r < 1"
  shows "nat \<lfloor>r * real (length charset)\<rfloor> < length charset"
proof -
  have l: "length charset = 32" by (simp add: charset_def)
  have "r * 32 < 32" using assms by simp
  then have "\<lfloor>r * 32\<rfloor> < 32" by (simp add: floor_less_iff)
  moreover have "0 \<le> \<lfloor>r * 32\<rfloor>" using assms by simp
  ultimately have "nat \<lfloor>r * 32\<rfloor> < 32" by linarith
  then show ?thesis by (simp add: l)
qed

lemma charAt_pick:
  assumes "0 \<le> rnd i \<and> rnd i < 1"
  shows "charAt charset (nat \<lfloor>rnd i * real (length charset)\<rfloor>) = [pick rnd i]"
proof -
  from assms have "nat \<lfloor>rnd i * real (length charset)\<rfloor> < length charset"
    by (simp add: random_index)
  then show ?thesis by (simp add: charAt_def pick_def)
qed

lemma pick_in_charset:
  assumes "0 \<le> rnd i \<and> rnd i < 1"
  shows "pick rnd i \<in> set charset"
proof -
  from assms have "nat \<lfloor>rnd i * real (length charset)\<rfloor> < length charset"
    by (simp add: random_index)
  then show ?thesis unfolding pick_def by (rule nth_mem)
qed


lemma passkey_loop_done: "\<not> i < 16 \<Longrightarrow> passkey_loop rnd i p = p"
  by (subst passkey_loop.simps) simp

lemma passkey_loop_step:
  assumes i: "i < 16" and ri: "0 \<le> rnd i \<and> rnd i < 1"
  shows "passkey_loop rnd i p =
          passkey_loop rnd (Suc i)
            ((if 0 < i \<and> i mod 4 = 0 then p @ ''-'' else p) @ [pick rnd i])"
proof -
  have c: "charAt charset (nat \<lfloor>rnd i * real (length charset)\<rfloor>) = [pick rnd i]"
    using ri by (rule charAt_pick)
  show ?thesis
    by (subst passkey_loop.simps) (simp only: i c Let_def if_True)
qed


lemma passkey_loop_render:
  assumes r: "\<forall>j<16. 0 \<le> rnd j \<and> rnd j < 1"
  shows "i + n = 16 \<Longrightarrow> passkey_loop rnd i p = p @ render rnd i n"
proof (induction n arbitrary: i p)
  case 0
  then have "\<not> i < 16" by simp
  then show ?case by (simp add: passkey_loop_done)
next
  case (Suc n)
  from Suc.prems have i: "i < 16" and n: "Suc i + n = 16" by simp_all
  from r i have ri: "0 \<le> rnd i \<and> rnd i < 1" by blast
  have "passkey_loop rnd i p =
          passkey_loop rnd (Suc i)
            ((if 0 < i \<and> i mod 4 = 0 then p @ ''-'' else p) @ [pick rnd i])"
    using i ri by (rule passkey_loop_step)
  also have "\<dots> = ((if 0 < i \<and> i mod 4 = 0 then p @ ''-'' else p) @ [pick rnd i])
                      @ render rnd (Suc i) n"
    by (rule Suc.IH[OF n])
  also have "\<dots> = p @ render rnd i (Suc n)"
    by simp
  finally show ?case .
qed


lemma render_numeral:
  "render rnd i (numeral k) =
     (if 0 < i \<and> i mod 4 = 0 then ''-'' else []) @ [pick rnd i] @ render rnd (i + 1) (pred_numeral k)"
proof -
  have k: "numeral k = Suc (pred_numeral k)" by (rule numeral_eq_Suc)
  show ?thesis by (subst k) (rule render.simps(2))
qed

lemma render_one:
  "render rnd i 1 = (if 0 < i \<and> i mod 4 = 0 then ''-'' else []) @ [pick rnd i]"
  by simp

lemma render_16:
  "render rnd 0 16 =
     [pick rnd 0, pick rnd 1, pick rnd 2, pick rnd 3, CHR ''-'',
      pick rnd 4, pick rnd 5, pick rnd 6, pick rnd 7, CHR ''-'',
      pick rnd 8, pick rnd 9, pick rnd 10, pick rnd 11, CHR ''-'',
      pick rnd 12, pick rnd 13, pick rnd 14, pick rnd 15]"
  by (simp add: render_numeral render_one del: One_nat_def)


lemma charset_alphabet:
  "length charset = 32" "distinct charset"
  "set charset = set ''ABCDEFGHIJKLMNOPQRSTUVWXYZ23456789'' - {CHR ''I'', CHR ''O''}"
  by (simp_all add: charset_def) auto

lemma generated_passkey_shape:
  assumes r: "\<forall>j<16. 0 \<le> rnd j \<and> rnd j < 1"
  shows "\<exists>cs. length cs = 16 \<and> set cs \<subseteq> set charset
              \<and> recoveryPasskey (handleGeneratePasskey rnd successor now) =
                  take 4 cs @ ''-'' @ take 4 (drop 4 cs) @ ''-'' @ take 4 (drop 8 cs) @ ''-''
                  @ drop 12 cs"
proof -
  define cs where "cs = [pick rnd 0, pick rnd 1, pick rnd 2, pick rnd 3,
      pick rnd 4, pick rnd 5, pick rnd 6, pick rnd 7,
      pick rnd 8, pick rnd 9, pick rnd 10, pick rnd 11,
      pick rnd 12, pick rnd 13, pick rnd 14, pick rnd 15]"
  have p: "pick rnd j \<in> set charset" if "j < 16" for j
    using r that by (intro pick_in_charset) blast
  have "passkey_loop rnd 0 [] = [] @ render rnd 0 16"
    using r by (intro passkey_loop_render) simp_all
  then have pk: "recoveryPasskey (handleGeneratePasskey rnd successor now) = render rnd 0 16"
    by (simp add: handleGeneratePasskey_def)
  have 1: "length cs = 16" by (simp add: cs_def)
  have 2: "set cs \<subseteq> set charset" by (simp add: cs_def p)
  have 3: "render rnd 0 16 =
             take 4 cs @ ''-'' @ take 4 (drop 4 cs) @ ''-'' @ take 4 (drop 8 cs) @ ''-'' @ drop 12 cs"
    by (simp add: render_16 cs_def)
  from 1 2 3 pk show ?thesis by metis
qed

text \<open>
  C6 at a failing input. A passkey produced by \<open>handleGeneratePasskey\<close> is typed back
  exactly as it is displayed, hyphens included; \<open>handlePasskeyUnlock\<close> strips hyphens from
  the stored passkey but not from the input, reports an invalid passkey and leaves the
  vault locked.
\<close>

theorem generated_passkey_typed_as_shown_is_rejected:
  "recoveryPasskey legacy0 = ''ACEG-JLNQ-SUWY-2468''
   \<and> handlePasskeyUnlock ascii_strings (Some legacy0)
        ((SecurityVault_mount True)\<lparr>passkeyInput := ''ACEG-JLNQ-SUWY-2468''\<rparr>)
     = (SecurityVault_mount True)\<lparr>passkeyInput := ''ACEG-JLNQ-SUWY-2468'',
          vault_error := Some ''Invalid passkey. Please check the emergency instructions.''\<rparr>
   \<and> isLocked (handlePasskeyUnlock ascii_strings (Some legacy0)
        ((SecurityVault_mount True)\<lparr>passkeyInput := ''ACEG-JLNQ-SUWY-2468''\<rparr>))"
  by (simp add: recoveryPasskey_legacy0 handlePasskeyUnlock_def normalizedInput_hyphenated
        normalizedPasskey_hyphenated SecurityVault_mount_def)

section \<open>Properties of the persisted document\<close>

lemma map_of_own_props:
  "distinct (map fst ps) \<Longrightarrow> map_of (own_props ps) k = (case map_of ps k of None \<Rightarrow> None | Some v \<Rightarrow> v)"
proof (induction ps)
  case Nil
  then show ?case by (simp add: own_props_def List.map_filter_simps)
next
  case (Cons p ps)
  obtain k' v where p: "p = (k', v)" by (cases p)
  from Cons have IH: "map_of (own_props ps) k = (case map_of ps k of None \<Rightarrow> None | Some v \<Rightarrow> v)" by simp
  from Cons.prems p have nk: "k' \<notin> fst ` set ps" by simp
  show ?case
  proof (cases v)
    case None
    have "map_of ps k' = None" using nk by (simp add: map_of_eq_None_iff)
    then show ?thesis using None p IH
      by (auto simp: own_props_def List.map_filter_simps)
  next
    case (Some x)
    then show ?thesis using p IH
      by (auto simp: own_props_def List.map_filter_simps)
  qed
qed

lemma as_str_JStr: "as_str (Some (JStr s)) = Some s" by (simp add: as_str_def)
lemma as_opt_str: "as_opt as_str (map_option JStr x) = Some x"
  by (cases x) (simp_all add: as_opt_def as_str_def)
lemma as_opt_bool: "as_opt as_bool (map_option JBool x) = Some x"
  by (cases x) (simp_all add: as_opt_def as_bool_def)
lemma as_num_numeric: "numeric n \<Longrightarrow> as_num (Some (json_of_num n)) = Some n"
  by (cases n) (simp_all add: as_num_def json_of_num_def numeric_def)
lemma as_opt_num: "numeric_opt x \<Longrightarrow> as_opt as_num (map_option json_of_num x) = Some x"
  by (cases x) (simp_all add: as_opt_def numeric_opt_def as_num_numeric numeric_def)
lemma as_EntryType_name: "as_EntryType (Some (JStr (EntryType_name t))) = Some t"
  by (cases t) (simp_all add: as_EntryType_def EntryType_name_def)
lemma as_opt_liquidity: "as_opt as_liquidity (map_option (\<lambda>l. JStr (liquidity_name l)) x) = Some x"
proof (cases x)
  case None then show ?thesis by (simp add: as_opt_def)
next
  case (Some l) then show ?thesis by (cases l) (simp_all add: as_opt_def as_liquidity_def liquidity_name_def)
qed
lemma source_roundtrip: "source_of_json (json_of_source s) = Some s"
  by (simp add: source_of_json_def json_of_source_def get_prop_def as_str_def)
lemma those_list_sources: "those_list (map (source_of_json \<circ> json_of_source) ss) = Some ss"
  by (induction ss) (simp_all add: source_roundtrip)
lemma as_opt_sources:
  "as_opt (as_list source_of_json) (map_option (\<lambda>ss. JArr (map json_of_source ss)) x) = Some x"
  by (cases x) (simp_all add: as_opt_def as_list_def those_list_sources)


lemma get_prop_entry:
  "get_prop (json_of_entry e) k = (case (map_of
     [(''id'', Some (JStr (entry_id e))),
      (''type'', Some (JStr (EntryType_name (entry_type e)))),
      (''category'', Some (JStr (category e))),
      (''name'', Some (JStr (name e))),
      (''amount'', Some (json_of_num (amount e))),
      (''currency'', map_option JStr (currency e)),
      (''initialAmount'', map_option json_of_num (initialAmount e)),
      (''date'', Some (JStr (date e))),
      (''address'', map_option JStr (address e)),
      (''plotSize'', map_option JStr (plotSize e)),
      (''propertyType'', map_option JStr (propertyType e)),
      (''valuationSources'', map_option (\<lambda>ss. JArr (map json_of_source ss)) (valuationSources e)),
      (''lastValuated'', map_option JStr (lastValuated e)),
      (''referenceNumber'', map_option JStr (referenceNumber e)),
      (''linkedAssetId'', map_option JStr (linkedAssetId e)),
      (''statementDriveId'', map_option JStr (statementDriveId e)),
      (''isRecurring'', map_option JBool (isRecurring e)),
      (''isWorkProvided'', map_option JBool (isWorkProvided e)),
      (''liquidity'', map_option (\<lambda>l. JStr (liquidity_name l)) (liquidity e)),
      (''notes'', map_option JStr (entry_notes e)),
      (''coverageAmount'', map_option json_of_num (coverageAmount e)),
      (''expiryDate'', map_option JStr (expiryDate e)),
      (''emi'', map_option json_of_num (emi e)),
      (''monthsRemaining'', map_option json_of_num (monthsRemaining e))] k) of None \<Rightarrow> None | Some v \<Rightarrow> v)"
  unfolding get_prop_def json_of_entry_def json.case
  by (rule map_of_own_props) simp


text \<open>A number that is \<open>NaN\<close> is written as \<open>null\<close>, which does not read as a number.\<close>

lemma as_num_NaN: "\<not> numeric n \<Longrightarrow> as_num (Some (json_of_num n)) = None"
  by (cases n) (simp_all add: as_num_def json_of_num_def numeric_def)

lemma as_opt_num_NaN: "\<not> numeric_opt x \<Longrightarrow> as_opt as_num (map_option json_of_num x) = None"
  by (simp add: numeric_opt_def as_opt_def as_num_def json_of_num_def)

lemma as_num_cases:
  "as_num (Some (json_of_num n)) = (if numeric n then Some n else None)"
  by (simp add: as_num_numeric as_num_NaN)

lemma as_opt_num_cases:
  "as_opt as_num (map_option json_of_num x) = (if numeric_opt x then Some x else None)"
  by (simp add: as_opt_num as_opt_num_NaN)

lemma entry_not_restored:
  assumes "\<not> entry_numeric e"
  shows "entry_of_json (json_of_entry e) = None"
  using assms
  by (simp add: entry_of_json_def get_prop_entry as_str_JStr as_opt_str as_opt_bool
        as_EntryType_name as_opt_liquidity as_opt_sources as_num_cases as_opt_num_cases
        entry_numeric_def)




























section \<open>Properties of the storage backend\<close>



















section \<open>Properties of the exchange-rate refresh\<close>

lemma currenciesUsed_example: "currenciesUsed example_data = [''GBP'', ''USD'']"
  by (simp add: currenciesUsed_def dedupe_def example_data_def example_entry_def)

lemma base_example: "settings_currency (settings example_data) = ''USD''"
  by (simp add: example_data_def example_settings_def)

lemma fetch_unparseable:
  "fetchExchangeRates toStr base cs (ResponseText (Some Unparseable)) = Inr [(base, Num 1)]"
  by (simp add: fetchExchangeRates_def parse_rates_def Let_def)

lemma fetch_rejected:
  assumes "list_ex (\<lambda>c. c \<noteq> base) cs"
  shows "fetchExchangeRates toStr base cs RequestFailed = Inl (Error ''generateContent failed'')"
proof -
  from assms obtain c where "c \<in> set cs" and "c \<noteq> base"
    by (auto simp: list_ex_iff)
  then have "c \<in> set (filter (\<lambda>c. c \<noteq> base) (dedupe cs))"
    by (simp add: dedupe_def)
  then have "filter (\<lambda>c. c \<noteq> base) (dedupe cs) \<noteq> []"
    by (metis empty_iff list.set(1))
  moreover from \<open>c \<in> set cs\<close> have "cs \<noteq> []" by auto
  ultimately have "filter (\<lambda>c. c \<noteq> base) (dedupe cs) \<noteq> []" and "cs \<noteq> []"
    by simp_all
  then show ?thesis by (simp add: fetchExchangeRates_def Let_def)
qed

lemma updateExchangeRates_user:
  assumes "currenciesUsed d \<noteq> []"
      and "fetchExchangeRates toStr (settings_currency (settings d)) (currenciesUsed d) resp = Inr rates"
  shows "app_user (updateExchangeRates toStr resp d app) = Some (Typed (d\<lparr>exchangeRates := Some rates\<rparr>))"
  using assms by (simp add: updateExchangeRates_def Let_def split: sum.splits)

text \<open>
  The two ways in which a refresh can fail. When the request itself rejects,
  \<open>updateExchangeRates\<close> catches the error and the whole state, the cached table
  included, stays as it was. When a response arrives that cannot be parsed,
  \<open>fetchExchangeRates\<close> catches the parse error itself and returns the identity table
  of the base currency, which the caller stores in place of the cached table.
\<close>

lemma rejected_request_keeps_state:
  assumes "list_ex (\<lambda>c. c \<noteq> settings_currency (settings d)) (currenciesUsed d)"
  shows "updateExchangeRates toStr RequestFailed d app = app"
  using fetch_rejected[OF assms] by (simp add: updateExchangeRates_def)

lemma unparseable_response_replaces_table:
  assumes "currenciesUsed d \<noteq> []"
  shows "app_user (updateExchangeRates toStr (ResponseText (Some Unparseable)) d app)
         = Some (Typed (d\<lparr>exchangeRates := Some [(settings_currency (settings d), Num 1)]\<rparr>))"
  using updateExchangeRates_user[OF assms fetch_unparseable] .

text \<open>
  C5 at a failing input. The session holds a snapshot with the cached table
  \<open>{USD: 1, GBP: 1.27}\<close>, base currency USD and entries in GBP, and the rate request
  is answered with a text that is not JSON. C5 wants the cached table kept. The refresh
  replaces it by \<open>{USD: 1}\<close>, in the session and in the stored document, and the GBP
  asset of 100 that was worth 100 / 1.27 in base currency now counts as 100. Had the
  request been rejected instead, the state would be unchanged.
\<close>

theorem malformed_response_replaces_cached_rates:
  "app_user app_example = Some (Typed example_data)
   \<and> exchangeRates example_data = Some [(''USD'', Num 1), (''GBP'', Num (127 / 100))]
   \<and> app_user (updateExchangeRates (\<lambda>v. []) (ResponseText (Some Unparseable)) example_data
                  app_example)
     = Some (Typed (example_data\<lparr>exchangeRates := Some [(''USD'', Num 1)]\<rparr>))
   \<and> map_of (idb (service (updateExchangeRates (\<lambda>v. []) (ResponseText (Some Unparseable))
                              example_data app_example))) STORAGE_IDB_KEY
     = Some (VaultBlob (example_data\<lparr>exchangeRates := Some [(''USD'', Num 1)]\<rparr>))
   \<and> getConvertedAmount example_data (Num 100) (Some ''GBP'') = Num (100 / (127 / 100))
   \<and> getConvertedAmount (example_data\<lparr>exchangeRates := Some [(''USD'', Num 1)]\<rparr>) (Num 100)
        (Some ''GBP'') = Num 100
   \<and> updateExchangeRates (\<lambda>v. []) RequestFailed example_data app_example = app_example"
proof -
  have c: "currenciesUsed example_data \<noteq> []" by (simp add: currenciesUsed_example)
  have 1: "app_user app_example = Some (Typed example_data)"
    by (simp add: app_example_def)
  have 2: "exchangeRates example_data = Some [(''USD'', Num 1), (''GBP'', Num (127 / 100))]"
    by (simp add: example_data_def)
  have 3: "app_user (updateExchangeRates (\<lambda>v. []) (ResponseText (Some Unparseable)) example_data
                  app_example)
     = Some (Typed (example_data\<lparr>exchangeRates := Some [(''USD'', Num 1)]\<rparr>))"
    using unparseable_response_replaces_table[OF c] by (simp add: base_example)
  have 4: "map_of (idb (service (updateExchangeRates (\<lambda>v. []) (ResponseText (Some Unparseable))
                              example_data app_example))) STORAGE_IDB_KEY
     = Some (VaultBlob (example_data\<lparr>exchangeRates := Some [(''USD'', Num 1)]\<rparr>))"
    using c
    by (simp add: updateExchangeRates_def fetch_unparseable base_example Let_def saveData_def
          localDb_save_def app_example_def initial_app_def backend0_def initial_backend_def)
  have 5: "getConvertedAmount example_data (Num 100) (Some ''GBP'') = Num (100 / (127 / 100))"
    by (simp add: getConvertedAmount_def rate_lookup_def example_data_def example_settings_def)
  have 6: "getConvertedAmount (example_data\<lparr>exchangeRates := Some [(''USD'', Num 1)]\<rparr>) (Num 100)
        (Some ''GBP'') = Num 100"
    by (simp add: getConvertedAmount_def rate_lookup_def Object_prototype_members_def
          example_data_def example_settings_def)
  have 7: "updateExchangeRates (\<lambda>v. []) RequestFailed example_data app_example = app_example"
    by (rule rejected_request_keeps_state) (simp add: currenciesUsed_example base_example)
  from 1 2 3 4 5 6 7 show ?thesis by simp
qed

section \<open>Properties of login\<close>

lemma currenciesUsed_initial: "currenciesUsed (createInitialData now) = []"
  by (simp add: currenciesUsed_def createInitialData_def dedupe_def)

text \<open>
  When the vault document is located but its download fails, \<open>handleLogin\<close> enters the
  session with fresh data and leaves the storage service as \<open>login\<close> left it: nothing
  is saved, and no error is reported.
\<close>

lemma handleLogin_failed_download_saves_nothing:
  assumes "login m granted picked (service app) = (Inr ok, b1)"
      and "findFile b1 FILE_NAME None = Inr (Some fid)" and "fid \<noteq> []"
      and "downloadData b1 fid = Inl e"
  shows "handleLogin m granted picked now toStr resp app =
           app\<lparr>authError := None, service := b1,
                app_user := Some (Typed (createInitialData now)),
                isAuthenticated := True, app_vaultLocked := app_vaultLocked app\<rparr>"
proof -
  have v: "\<not> biometric_flag (Typed (createInitialData now))"
    by (simp add: biometric_flag_def createInitialData_def)
  from assms show ?thesis
    by (simp add: handleLogin_def truthy_id_def repair_def updateExchangeRates_def
          currenciesUsed_initial v)
qed

text \<open>
  C8 at a failing input: the first login in the embedded-database mode, on an empty
  store. \<open>findFile\<close> answers with its fixed name, \<open>downloadData\<close> throws for want of a
  document, the fresh snapshot becomes the session's data without an error being shown,
  but it is not saved: the store is still empty and a download still fails.
\<close>

theorem first_login_local_db_persists_nothing:
  "app_user (handleLogin LocalDb None None now0 (\<lambda>v. []) RequestFailed (initial_app initial_backend))
     = Some (Typed (createInitialData now0))
   \<and> isAuthenticated (handleLogin LocalDb None None now0 (\<lambda>v. []) RequestFailed (initial_app initial_backend))
   \<and> authError (handleLogin LocalDb None None now0 (\<lambda>v. []) RequestFailed (initial_app initial_backend)) = None
   \<and> idb (service (handleLogin LocalDb None None now0 (\<lambda>v. []) RequestFailed (initial_app initial_backend))) = []
   \<and> downloadData (service (handleLogin LocalDb None None now0 (\<lambda>v. []) RequestFailed (initial_app initial_backend))) ''idb-vault''
       = Inl (Error ''Vault not found in Local Storage.'')"
proof -
  have v: "\<not> biometric_flag (Typed (createInitialData now0))"
    by (simp add: biometric_flag_def createInitialData_def)
  show ?thesis
    by (simp add: handleLogin_def login_def findFile_def truthy_id_def downloadData_def
          localDb_get_def initial_app_def initial_backend_def updateExchangeRates_def
          currenciesUsed_initial repair_def v)
qed

section \<open>Properties of the vault lock\<close>

text \<open>The rate refresh touches neither the session flags nor the settings.\<close>

lemma updateExchangeRates_flags:
  "isAuthenticated (updateExchangeRates toStr resp d app) = isAuthenticated app"
  "app_vaultLocked (updateExchangeRates toStr resp d app) = app_vaultLocked app"
  by (simp_all add: updateExchangeRates_def Let_def split: sum.splits)

lemma updateExchangeRates_session_flag:
  assumes "app_user app = Some (Typed d)"
  shows "session_flag (updateExchangeRates toStr resp d app) = biometricEnabled (settings d)"
  using assms
  by (simp add: updateExchangeRates_def session_flag_def biometric_flag_def Let_def
           split: sum.splits)

lemma login_failed_flags:
  "isAuthenticated (login_failed e app) = isAuthenticated app"
  by (simp add: login_failed_def)

text \<open>
  A login that enters the session leaves the lock flag of \<open>App\<close> set whenever the data
  it enters with have the vault-lock flag set.
\<close>

lemma handleLogin_outcome:
  "(\<exists>e a. handleLogin m granted picked now toStr resp app = login_failed e a
           \<and> isAuthenticated a = isAuthenticated app)
   \<or> (\<exists>data a. app_user a = Some data
           \<and> app_vaultLocked a = (if biometric_flag data then True else app_vaultLocked app)
           \<and> handleLogin m granted picked now toStr resp app =
                 (case data of
                    Typed d \<Rightarrow> updateExchangeRates toStr resp d a
                  | Untyped j \<Rightarrow> a))"
proof -
  have fail: "?thesis" if "handleLogin m granted picked now toStr resp app = login_failed e ((app\<lparr>authError := None\<rparr>)\<lparr>service := b\<rparr>)" for e b
    using that by (intro disjI1 exI[of _ e] exI[of _ "(app\<lparr>authError := None\<rparr>)\<lparr>service := b\<rparr>"]) (simp split: document.splits)
  have ok: "?thesis" if "handleLogin m granted picked now toStr resp app =
       (case data of
          Typed d \<Rightarrow> updateExchangeRates toStr resp d
             ((app\<lparr>authError := None\<rparr>)\<lparr>service := b, app_user := Some data, isAuthenticated := True,
                   app_vaultLocked := (if biometric_flag data then True else app_vaultLocked app)\<rparr>)
        | Untyped j \<Rightarrow> (app\<lparr>authError := None\<rparr>)\<lparr>service := b, app_user := Some data, isAuthenticated := True,
                   app_vaultLocked := (if biometric_flag data then True else app_vaultLocked app)\<rparr>)" for data b
    using that
    by (intro disjI2 exI[of _ data] exI[of _ "(app\<lparr>authError := None\<rparr>)\<lparr>service := b, app_user := Some data, isAuthenticated := True,
                   app_vaultLocked := (if biometric_flag data then True else app_vaultLocked app)\<rparr>"])
       (simp split: document.splits)
  show ?thesis
  proof (cases "login m granted picked (service app)")
    case (Pair r b1)
    show ?thesis
    proof (cases r)
      case (Inl e)
      with Pair show ?thesis by (intro fail[of e b1]) (simp add: handleLogin_def)
    next
      case (Inr okv)
      show ?thesis
      proof (cases "findFile b1 FILE_NAME None")
        case (Inl e)
        with Pair Inr show ?thesis by (intro fail[of e b1]) (simp add: handleLogin_def)
      next
        case ff: (Inr fileId)
        show ?thesis
        proof (cases "truthy_id fileId")
          case True
          show ?thesis
          proof (cases "downloadData b1 (the fileId)")
            case (Inl e)
            show ?thesis
            proof (cases "repair now (Typed (createInitialData now))")
              case rl: (Inl e')
              with Pair Inr ff True Inl show ?thesis
                by (intro fail[of e' b1]) (simp add: handleLogin_def)
            next
              case rr: (Inr data)
              with Pair Inr ff True Inl show ?thesis
                by (intro ok[of data b1]) (simp add: handleLogin_def Let_def split: document.splits)
            qed
          next
            case dl: (Inr loaded)
            show ?thesis
            proof (cases "repair now loaded")
              case rl: (Inl e')
              with Pair Inr ff True dl show ?thesis
                by (intro fail[of e' b1]) (simp add: handleLogin_def)
            next
              case rr: (Inr data)
              with Pair Inr ff True dl show ?thesis
                by (intro ok[of data b1]) (simp add: handleLogin_def Let_def split: document.splits)
            qed
          qed
        next
          case False
          show ?thesis
          proof (cases "saveData b1 (createInitialData now)")
            case (Inl e)
            with Pair Inr ff False show ?thesis
              by (intro fail[of e b1]) (simp add: handleLogin_def)
          next
            case sv: (Inr b2)
            show ?thesis
            proof (cases "repair now (Typed (createInitialData now))")
              case rl: (Inl e')
              with Pair Inr ff False sv show ?thesis
                by (intro fail[of e' b2]) (simp add: handleLogin_def)
            next
              case rr: (Inr data)
              with Pair Inr ff False sv show ?thesis
                by (intro ok[of data b2]) (simp add: handleLogin_def Let_def split: document.splits)
            qed
          qed
        qed
      qed
    qed
  qed
qed

lemma handleLogin_sets_lock:
  assumes n: "\<not> isAuthenticated app"
      and a: "isAuthenticated (handleLogin m granted picked now toStr resp app)"
      and f: "session_flag (handleLogin m granted picked now toStr resp app)"
  shows "app_vaultLocked (handleLogin m granted picked now toStr resp app)"
proof -
  from handleLogin_outcome[of m granted picked now toStr resp app]
  consider (failed) e x where
      "handleLogin m granted picked now toStr resp app = login_failed e x"
      "isAuthenticated x = isAuthenticated app"
    | (entered) data x where
      "app_user x = Some data"
      "app_vaultLocked x = (if biometric_flag data then True else app_vaultLocked app)"
      "handleLogin m granted picked now toStr resp app =
         (case data of
            Typed d \<Rightarrow> updateExchangeRates toStr resp d x
          | Untyped j \<Rightarrow> x)"
    by blast
  then show ?thesis
  proof cases
    case failed
    with n a show ?thesis by (simp add: login_failed_flags)
  next
    case entered
    show ?thesis
    proof (cases data)
      case (Typed d)
      with entered have h: "handleLogin m granted picked now toStr resp app =
                              updateExchangeRates toStr resp d x"
        and u: "app_user x = Some (Typed d)" by simp_all
      from f h have "session_flag (updateExchangeRates toStr resp d x)" by simp
      with u have "biometricEnabled (settings d)"
        by (simp add: updateExchangeRates_session_flag)
      with Typed entered(2) have "app_vaultLocked x" by (simp add: biometric_flag_def)
      with h show ?thesis by (simp add: updateExchangeRates_flags)
    next
      case (Untyped j)
      with entered have h: "handleLogin m granted picked now toStr resp app = x"
        and u: "app_user x = Some (Untyped j)" by simp_all
      from f h u have "biometric_flag (Untyped j)" by (simp add: session_flag_def)
      with Untyped entered(2) h show ?thesis by simp
    qed
  qed
qed

text \<open>
  C1, as stated, allows no unlock without a successful credential check. The
  ``Verify Identity'' action unlocks a locked vault for which no passkey is
  stored and no input was given: nothing was compared.
\<close>

theorem verify_identity_unlocks_without_check:
  "isLocked (SecurityVault_mount True) \<and> isVaultLocked (SecurityVault_mount True)
   \<and> \<not> passkey_check ascii_strings None (passkeyInput (SecurityVault_mount True))
   \<and> \<not> isLocked (vault_step ascii_strings None (SecurityVault_mount True) VerifyIdentity)
   \<and> \<not> isVaultLocked (vault_step ascii_strings None (SecurityVault_mount True) VerifyIdentity)"
  by (simp add: SecurityVault_mount_def passkey_check_def handleUnlock_def)

text \<open>
  C1, amended. A login that enters the session with data whose vault-lock flag is set
  leaves the lock flag of the application set, and the lock screen is mounted locked.
  Of the actions of the lock screen exactly two clear the lock, and each clears the
  flag of the application together with the component's own: ``Verify Identity'', a
  simulated biometric step that reads no credential and always succeeds, and ``Unlock
  Vault'' when a recovery passkey is stored and the normalised input equals the
  normalised stored passkey. Every other action, and a passkey attempt that does not
  match or has no stored passkey to match, leaves both flags as they were. (This holds
  whatever the string primitives of the platform do.)
\<close>

theorem vault_locked_on_login_and_unlocked_by_two_actions:
  "(\<not> isAuthenticated app
      \<and> isAuthenticated (handleLogin m granted picked now toStr resp app)
      \<and> session_flag (handleLogin m granted picked now toStr resp app) \<longrightarrow>
        app_vaultLocked (handleLogin m granted picked now toStr resp app)
        \<and> isLocked (SecurityVault_mount
              (app_vaultLocked (handleLogin m granted picked now toStr resp app)))
        \<and> isVaultLocked (SecurityVault_mount
              (app_vaultLocked (handleLogin m granted picked now toStr resp app))))
   \<and> isLocked (vault_step P leg s ev) =
       (isLocked s \<and> \<not> (ev = VerifyIdentity
                          \<or> (ev = UnlockVault \<and> passkey_check P leg (passkeyInput s))))
   \<and> isVaultLocked (vault_step P leg s ev) =
       (isVaultLocked s \<and> \<not> (ev = VerifyIdentity
                          \<or> (ev = UnlockVault \<and> passkey_check P leg (passkeyInput s))))"
proof (intro conjI impI)
  assume a: "\<not> isAuthenticated app
      \<and> isAuthenticated (handleLogin m granted picked now toStr resp app)
      \<and> session_flag (handleLogin m granted picked now toStr resp app)"
  then have l: "app_vaultLocked (handleLogin m granted picked now toStr resp app)"
    by (intro handleLogin_sets_lock) simp_all
  then show "app_vaultLocked (handleLogin m granted picked now toStr resp app)" .
  from l show "isLocked (SecurityVault_mount
              (app_vaultLocked (handleLogin m granted picked now toStr resp app)))"
    by (simp add: SecurityVault_mount_def)
  from l show "isVaultLocked (SecurityVault_mount
              (app_vaultLocked (handleLogin m granted picked now toStr resp app)))"
    by (simp add: SecurityVault_mount_def)
next
  show "isLocked (vault_step P leg s ev) =
       (isLocked s \<and> \<not> (ev = VerifyIdentity
                          \<or> (ev = UnlockVault \<and> passkey_check P leg (passkeyInput s))))"
    by (cases ev)
       (auto simp: handleUnlock_def handlePasskeyUnlock_def passkey_check_def
             split: option.splits)
next
  show "isVaultLocked (vault_step P leg s ev) =
       (isVaultLocked s \<and> \<not> (ev = VerifyIdentity
                          \<or> (ev = UnlockVault \<and> passkey_check P leg (passkeyInput s))))"
    by (cases ev)
       (auto simp: handleUnlock_def handlePasskeyUnlock_def passkey_check_def
             split: option.splits)
qed

lemma login_locked_db:
  "handleLogin LocalDb None None now0 (\<lambda>v. []) RequestFailed (initial_app locked_db)
     = (initial_app locked_db)\<lparr>app_user := Some (Typed locked_data), isAuthenticated := True,
                                 app_vaultLocked := True\<rparr>"
proof -
  have c: "currenciesUsed locked_data = [''GBP'', ''USD'']"
    by (simp add: currenciesUsed_def dedupe_def locked_data_def example_data_def
          example_entry_def)
  have b: "settings_currency (settings locked_data) = ''USD''"
    by (simp add: locked_data_def example_settings_def)
  have f: "biometric_flag (Typed locked_data)"
    by (simp add: biometric_flag_def locked_data_def example_settings_def)
  have r: "updateExchangeRates (\<lambda>v. []) RequestFailed locked_data a = a" for a
    by (rule rejected_request_keeps_state) (simp add: c b)
  show ?thesis
    by (simp add: handleLogin_def login_def findFile_def truthy_id_def downloadData_def
          localDb_get_def initial_app_def locked_db_def initial_backend_def repair_def
          STORAGE_IDB_KEY_def f r)
qed

theorem vault_locked_on_login_and_unlocked_by_two_actions_witness:
  "\<not> isAuthenticated (initial_app locked_db)
   \<and> isAuthenticated (handleLogin LocalDb None None now0 (\<lambda>v. []) RequestFailed (initial_app locked_db))
   \<and> session_flag (handleLogin LocalDb None None now0 (\<lambda>v. []) RequestFailed (initial_app locked_db))
   \<and> app_vaultLocked (handleLogin LocalDb None None now0 (\<lambda>v. []) RequestFailed (initial_app locked_db))
   \<and> isLocked (SecurityVault_mount
         (app_vaultLocked (handleLogin LocalDb None None now0 (\<lambda>v. []) RequestFailed
                             (initial_app locked_db))))
   \<and> passkey_check ascii_strings (legacy locked_data) ''aceg jlnq suwy 2468''
   \<and> \<not> isLocked (vault_step ascii_strings (legacy locked_data)
          ((SecurityVault_mount True)\<lparr>passkeyInput := ''aceg jlnq suwy 2468''\<rparr>) UnlockVault)
   \<and> \<not> isVaultLocked (vault_step ascii_strings (legacy locked_data)
          ((SecurityVault_mount True)\<lparr>passkeyInput := ''aceg jlnq suwy 2468''\<rparr>) UnlockVault)
   \<and> isLocked (vault_step ascii_strings (legacy locked_data)
          ((SecurityVault_mount True)\<lparr>passkeyInput := ''aceg jlnq suwy 2468''\<rparr>)
          (TypePasskey ''aceg''))"
proof -
  let ?app = "handleLogin LocalDb None None now0 (\<lambda>v. []) RequestFailed (initial_app locked_db)"
  let ?s = "(SecurityVault_mount True)\<lparr>passkeyInput := ''aceg jlnq suwy 2468''\<rparr>"
  have a: "\<not> isAuthenticated (initial_app locked_db)"
    by (simp add: initial_app_def)
  have b: "isAuthenticated ?app"
    by (simp add: login_locked_db)
  have c: "session_flag ?app"
    by (simp add: login_locked_db session_flag_def biometric_flag_def locked_data_def
          example_settings_def)
  have d: "passkey_check ascii_strings (legacy locked_data) ''aceg jlnq suwy 2468''"
    by (simp add: passkey_check_def locked_data_def recoveryPasskey_legacy0
          normalizedInput_spaced normalizedPasskey_hyphenated)
  have i: "passkeyInput ?s = ''aceg jlnq suwy 2468''" and l: "isLocked ?s" "isVaultLocked ?s"
    by (simp_all add: SecurityVault_mount_def)
  from vault_locked_on_login_and_unlocked_by_two_actions
         [of "initial_app locked_db" LocalDb None None now0 "\<lambda>v. []" RequestFailed
             ascii_strings "legacy locked_data" ?s UnlockVault]
       vault_locked_on_login_and_unlocked_by_two_actions
         [of "initial_app locked_db" LocalDb None None now0 "\<lambda>v. []" RequestFailed
             ascii_strings "legacy locked_data" ?s "TypePasskey ''aceg''"]
       a b c d i l
  show ?thesis by simp
qed

section \<open>Properties of attachment archival\<close>

text \<open>In the local-filesystem and the drive mode an error of the medium gives \<open>null\<close>.\<close>

lemma archive_never_throws_in_fs_and_drive:
  assumes "mode b = Drive \<or> (mode b = LocalFs \<and> directoryHandle b \<noteq> None)"
  shows "\<exists>r b'. archiveStatement b base64 mimeType accountName dt suffix = (Inr r, b')"
  using assms
  by (auto simp: archiveStatement_def Let_def split: prod.splits sum.splits)

lemma archive_faulty_is_null:
  assumes "mode b = Drive \<or> (mode b = LocalFs \<and> directoryHandle b \<noteq> None)" and "faulty b"
  shows "archiveStatement b base64 mimeType accountName dt suffix = (Inr None, b)"
  using assms
  by (auto simp: archiveStatement_def ensureFolder_def findFile_def Let_def)

text \<open>There the upload goes on: every transaction becomes an entry without a reference.\<close>

lemma upload_loop_faulty:
  assumes "mode b = Drive \<or> (mode b = LocalFs \<and> directoryHandle b \<noteq> None)" and "faulty b"
  shows "\<exists>es. upload_loop base64 mimeType baseCurrency today uuids suffixes i results b acc
                 = (Inr (acc @ es), b)
              \<and> length es = length results
              \<and> list_all (\<lambda>e. statementDriveId e = None) es"
proof (induction results arbitrary: i acc)
  case Nil
  then show ?case by simp
next
  case (Cons res rest)
  from Cons[of "Suc i" "acc @ [extracted_entry baseCurrency (uuids i) today None res]"]
  obtain es where es: "upload_loop base64 mimeType baseCurrency today uuids suffixes (Suc i) rest b
                         (acc @ [extracted_entry baseCurrency (uuids i) today None res])
                       = (Inr ((acc @ [extracted_entry baseCurrency (uuids i) today None res]) @ es), b)"
    and len: "length es = length rest" and all: "list_all (\<lambda>e. statementDriveId e = None) es"
    by blast
  have sd: "statementDriveId (extracted_entry baseCurrency (uuids i) today None res) = None"
    by (simp add: extracted_entry_def truthy_id_def)
  show ?case
    apply (rule exI[of _ "extracted_entry baseCurrency (uuids i) today None res # es"])
    using es len all sd by (simp add: archive_faulty_is_null[OF assms])
qed

text \<open>
  C9 at a failing input: the embedded-database mode with a failing store (a rejected
  \<open>put\<close>, as when the quota is exceeded). \<open>archiveStatement\<close> rejects instead of
  returning \<open>null\<close>, the loop of \<open>handleFileUpload\<close> is left through the outer \<open>catch\<close>
  and \<open>onAddBulk\<close> is never called: the extracted entry is not recorded.
\<close>

theorem archive_error_in_local_db_blocks_entries:
  "archiveStatement faulty_db ''QUJD'' ''image/png'' ''Tesco'' ''2025-06-10'' ''ab12''
     = (Inl (Error ''IndexedDB request failed''), faulty_db)
   \<and> handleFileUpload ''QUJD'' ''image/png'' ''USD'' ''2025-06-15'' (\<lambda>i. ''id'') (\<lambda>i. ''ab12'')
        (Scanned [tesco]) faulty_db = (None, faulty_db)"
  by (simp add: archiveStatement_def handleFileUpload_def faulty_db_def initial_backend_def
        localDb_save_def tesco_def str_or_def Let_def)

section \<open>Properties of entry creation\<close>

lemma parseFloat_minus_50: "parseFloat ''-50'' = Num (- 50)"
  by (simp add: parseFloat_def is_space_def strip_sign_def is_digit_def digits_val_def digit_val_def
        is_negative_def exponent_of_def scale10_def Let_def)

lemma parseFloat_examples:
  "parseFloat ''12.5'' = Num (25 / 2)" "parseFloat '' 1e3'' = Num 1000" "parseFloat ''abc'' = NaN"
  "parseFloat ''-1,200.50'' = Num (- 1)" "parseFloat ''.5x'' = Num (1 / 2)"
  by (simp_all add: parseFloat_def is_space_def strip_sign_def is_digit_def digits_val_def digit_val_def
        is_negative_def exponent_of_def scale10_def Let_def)

text \<open>The CSV importer takes the absolute value: its amounts are non-negative, or \<open>NaN\<close>.\<close>

lemma mapToEntry_amount:
  assumes "mapToEntry baseCurrency uuid today parseDate raw = Inr e"
  shows "amount e = NaN \<or> js_ge (amount e) (Num 0)"
proof -
  have abs: "Math_abs x = NaN \<or> js_ge (Math_abs x) (Num 0)" for x
    by (cases x) simp_all
  from assms obtain s where "amount e = Math_abs (parseFloat s)"
    by (auto simp: mapToEntry_def Let_def split: option.splits)
  with abs show ?thesis by simp
qed

text \<open>
  C10 at a failing input: the manual form with the amount field \<open>-50\<close>. \<open>handleSubmit\<close>
  stores \<open>parseFloat\<close> of the field as it is, and \<open>addEntry\<close> puts the entry with the
  amount \<open>-50\<close> into the snapshot.
\<close>

theorem form_submit_records_negative_amount:
  "map_option amount (handleSubmit refund_form None ''id-1'' now0) = Some (Num (- 50))
   \<and> \<not> js_ge (Num (- 50)) (Num 0)
   \<and> map_option (\<lambda>u. map amount (entries u))
        (case handleSubmit refund_form None ''id-1'' now0 of
           None \<Rightarrow> None
         | Some e \<Rightarrow> addEntry now0 e (Some (createInitialData now0)))
       = Some [Num (- 50)]"
  by (simp add: handleSubmit_def refund_form_def parseFloat_minus_50 addEntry_def createInitialData_def)

end
